theory Spec2Isabelle
  imports Main
begin

section \<open>Payload types and memory\<close>

text \<open>
  The containers of \<^verbatim>\<open>sh/*.hpp\<close> are templates over the stored type \<^verbatim>\<open>Callable\<close>.
  What the templates use of that type is its size, two type traits and its four
  special operations; a \<open>callable_class\<close> records them. An object of the type is a
  value of \<open>'o\<close>; whatever the operations touch outside the object (the counter of the
  tests' \<^verbatim>\<open>counter\<close>) is the world \<open>'w\<close>. An operation that throws returns \<open>None\<close>.
  The move constructor yields the new object and the moved-from source.
\<close>

type_synonym addr = nat

record ('o, 'w, 'a, 'r) callable_class =
  size_of :: nat
  nothrow_move_constructible :: bool
  nothrow_invocable :: bool
  invoke_op :: "'o \<Rightarrow> 'a \<Rightarrow> 'w \<Rightarrow> ('r \<times> 'o \<times> 'w) option"
  copy_ctor :: "'o \<Rightarrow> 'w \<Rightarrow> ('o \<times> 'w) option"
  move_ctor :: "'o \<Rightarrow> 'w \<Rightarrow> 'o \<times> 'o \<times> 'w"
  dtor_op :: "'o \<Rightarrow> 'w \<Rightarrow> 'w"

text \<open>
  How a call can end other than by returning: \<^verbatim>\<open>std::terminate\<close>, a thrown
  \<^verbatim>\<open>std::bad_function_call\<close>, a failed \<^verbatim>\<open>assert\<close>, a read of storage that holds no
  object of the type read (undefined behaviour in C++), an exception of the payload,
  and a program rejected by a \<^verbatim>\<open>static_assert\<close>, a deleted function or
  \<^verbatim>\<open>enable_if\<close>.
\<close>

datatype failure =
  Terminate | Bad_function_call | Assertion_failed | Undefined_behaviour
  | Payload_exception | Ill_formed

text \<open>
  The storage union of a container: raw bytes, a live \<^verbatim>\<open>Callable\<close> in \<^verbatim>\<open>m_inplace\<close>, or
  a pointer in \<^verbatim>\<open>m_allocated\<close>. A storage is the member of the container at an address
  or the local \<^verbatim>\<open>temp\<close> of \<^verbatim>\<open>swap\<close>.
\<close>

datatype 'o storage = Raw | Inplace 'o | Allocated addr

datatype loc = Member addr | Temp

text \<open>
  A value of the member \<^verbatim>\<open>const vtable_type* m_vtable\<close>: the null pointer, the address
  of the singleton of \<^verbatim>\<open>null_vtable()\<close>, or the address of the singleton that
  \<^verbatim>\<open>callable_vtable<Callable>()\<close> (\<^verbatim>\<open>invocable_vtable\<close> in copyable_function) keeps per type.
\<close>

datatype ('o, 'w, 'a, 'r) vptr =
  Nullptr | Null_vtable | Callable_vtable "('o, 'w, 'a, 'r) callable_class"

record ('o, 'w, 'a, 'r) state =
  m_vtable :: "addr \<Rightarrow> ('o, 'w, 'a, 'r) vptr"
  m_storage :: "loc \<Rightarrow> 'o storage"
  heap :: "addr \<Rightarrow> 'o option"
  brk :: addr
  world :: 'w

type_synonym ('o, 'w, 'a, 'r) result =
  "(failure \<times> ('o, 'w, 'a, 'r) state) + ('o, 'w, 'a, 'r) state"

text \<open>
  The four owning class templates, with the \<^verbatim>\<open>Capacity\<close> parameter of the two in-place
  ones, and what else fixes an instantiation: the \<^verbatim>\<open>NoExcept\<close> parameter, the size of a
  pointer on the platform, and whether \<^verbatim>\<open>assert\<close> is compiled out.
\<close>

datatype family =
  Copyable_function | Move_only_function
  | Inplace_copyable_function nat | Inplace_move_only_function nat

record inst =
  kind :: family
  NoExcept :: bool
  sizeof_ptr :: nat
  NDEBUG :: bool

definition copyable :: "inst \<Rightarrow> bool" where
  "copyable K = (case kind K of
      Copyable_function \<Rightarrow> True
    | Move_only_function \<Rightarrow> False
    | Inplace_copyable_function n \<Rightarrow> True
    | Inplace_move_only_function n \<Rightarrow> False)"

text \<open>\<^verbatim>\<open>capacity = sizeof(void*) * 2\<close> in both storage unions; \<^verbatim>\<open>Capacity\<close> otherwise.\<close>

definition capacity :: "inst \<Rightarrow> nat" where
  "capacity K = (case kind K of
      Copyable_function \<Rightarrow> sizeof_ptr K * 2
    | Move_only_function \<Rightarrow> sizeof_ptr K * 2
    | Inplace_copyable_function n \<Rightarrow> n
    | Inplace_move_only_function n \<Rightarrow> n)"

text \<open>
  \<^verbatim>\<open>store_inplace<Callable>()\<close> of \<^verbatim>\<open>copyable_function_storage\<close> and
  \<^verbatim>\<open>move_only_function_storage\<close>. The in-place templates have no such test: their
  vtables always work on the buffer.
\<close>

definition store_inplace :: "inst \<Rightarrow> ('o, 'w, 'a, 'r) callable_class \<Rightarrow> bool" where
  "store_inplace K C = (case kind K of
      Copyable_function \<Rightarrow> size_of C \<le> capacity K \<and> nothrow_move_constructible C
    | Move_only_function \<Rightarrow> size_of C \<le> capacity K \<and> nothrow_move_constructible C
    | Inplace_copyable_function n \<Rightarrow> True
    | Inplace_move_only_function n \<Rightarrow> True)"

text \<open>
  \<^verbatim>\<open>new Callable{...}\<close>: the object is placed at the next free address. The
  allocation itself is taken to succeed.
\<close>

definition new_object ::
  "'o \<Rightarrow> ('o, 'w, 'a, 'r) state \<Rightarrow> addr \<times> ('o, 'w, 'a, 'r) state" where
  "new_object x s = (brk s, s\<lparr>heap := (heap s)(brk s := Some x), brk := Suc (brk s)\<rparr>)"

section \<open>Operation tables\<close>

record ('o, 'w, 'a, 'r) vtable =
  m_call :: "loc \<Rightarrow> 'a \<Rightarrow> ('o, 'w, 'a, 'r) state
    \<Rightarrow> (failure \<times> ('o, 'w, 'a, 'r) state) + ('r \<times> ('o, 'w, 'a, 'r) state)"
  m_dtor :: "loc \<Rightarrow> ('o, 'w, 'a, 'r) state \<Rightarrow> ('o, 'w, 'a, 'r) result"
  m_copy :: "(loc \<Rightarrow> loc \<Rightarrow> ('o, 'w, 'a, 'r) state \<Rightarrow> ('o, 'w, 'a, 'r) result) option"
  m_move :: "loc \<Rightarrow> loc \<Rightarrow> ('o, 'w, 'a, 'r) state \<Rightarrow> ('o, 'w, 'a, 'r) result"

text \<open>
  The constructor of each vtable from \<^verbatim>\<open>std::nullptr_t\<close>. The move-only vtables have
  no \<^verbatim>\<open>m_copy\<close> member.
\<close>

definition null_vtable :: "inst \<Rightarrow> ('o, 'w, 'a, 'r) vtable" where
  "null_vtable K = \<lparr>
     m_call = (\<lambda>storage args s.
       Inl (if NoExcept K then Terminate else Bad_function_call, s)),
     m_dtor = (\<lambda>storage s. Inr s),
     m_copy = (if copyable K then Some (\<lambda>dst_storage src_storage s. Inr s) else None),
     m_move = (\<lambda>dst_storage src_storage s. Inr s) \<rparr>"

text \<open>The lambdas of the vtable constructor for a \<^verbatim>\<open>Callable\<close>, one definition each.\<close>

definition callable_call ::
  "inst \<Rightarrow> ('o, 'w, 'a, 'r) callable_class \<Rightarrow> loc \<Rightarrow> 'a \<Rightarrow> ('o, 'w, 'a, 'r) state
    \<Rightarrow> (failure \<times> ('o, 'w, 'a, 'r) state) + ('r \<times> ('o, 'w, 'a, 'r) state)" where
  "callable_call K C storage args s =
     (if store_inplace K C then
        (case m_storage s storage of
           Inplace x \<Rightarrow>
             (case invoke_op C x args (world s) of
                None \<Rightarrow> Inl (if NoExcept K then Terminate else Payload_exception, s)
              | Some (r, x', w') \<Rightarrow>
                  Inr (r, s\<lparr>m_storage := (m_storage s)(storage := Inplace x'), world := w'\<rparr>))
         | _ \<Rightarrow> Inl (Undefined_behaviour, s))
      else
        (case m_storage s storage of
           Allocated p \<Rightarrow>
             (case heap s p of
                None \<Rightarrow> Inl (Undefined_behaviour, s)
              | Some x \<Rightarrow>
                  (case invoke_op C x args (world s) of
                     None \<Rightarrow> Inl (if NoExcept K then Terminate else Payload_exception, s)
                   | Some (r, x', w') \<Rightarrow>
                       Inr (r, s\<lparr>heap := (heap s)(p := Some x'), world := w'\<rparr>)))
         | _ \<Rightarrow> Inl (Undefined_behaviour, s)))"

definition callable_dtor ::
  "inst \<Rightarrow> ('o, 'w, 'a, 'r) callable_class \<Rightarrow> loc \<Rightarrow> ('o, 'w, 'a, 'r) state
    \<Rightarrow> ('o, 'w, 'a, 'r) result" where
  "callable_dtor K C storage s =
     (if store_inplace K C then
        (case m_storage s storage of
           Inplace x \<Rightarrow>
             Inr (s\<lparr>m_storage := (m_storage s)(storage := Raw),
                    world := dtor_op C x (world s)\<rparr>)
         | _ \<Rightarrow> Inl (Undefined_behaviour, s))
      else
        (case m_storage s storage of
           Allocated p \<Rightarrow>
             (case heap s p of
                None \<Rightarrow> Inl (Undefined_behaviour, s)
              | Some x \<Rightarrow>
                  Inr (s\<lparr>heap := (heap s)(p := None), world := dtor_op C x (world s)\<rparr>))
         | _ \<Rightarrow> Inl (Undefined_behaviour, s)))"

text \<open>
  \<^verbatim>\<open>m_copy\<close>. Both branches of copyable_function read the source through
  \<^verbatim>\<open>reinterpret_cast<const Callable&>(src_storage.m_inplace)\<close>; the in-place template
  reads \<^verbatim>\<open>*static_cast<const Callable*>(src_storage)\<close>, the buffer again.
\<close>

definition callable_copy ::
  "inst \<Rightarrow> ('o, 'w, 'a, 'r) callable_class \<Rightarrow> loc \<Rightarrow> loc \<Rightarrow> ('o, 'w, 'a, 'r) state
    \<Rightarrow> ('o, 'w, 'a, 'r) result" where
  "callable_copy K C dst_storage src_storage s =
     (if store_inplace K C then
        (case m_storage s src_storage of
           Inplace x \<Rightarrow>
             (case copy_ctor C x (world s) of
                None \<Rightarrow> Inl (Payload_exception, s)
              | Some (y, w') \<Rightarrow>
                  Inr (s\<lparr>m_storage := (m_storage s)(dst_storage := Inplace y), world := w'\<rparr>))
         | _ \<Rightarrow> Inl (Undefined_behaviour, s))
      else
        (case m_storage s src_storage of
           Inplace x \<Rightarrow>
             (case copy_ctor C x (world s) of
                None \<Rightarrow> Inl (Payload_exception, s)
              | Some (y, w') \<Rightarrow>
                  (let (p, s') = new_object y (s\<lparr>world := w'\<rparr>)
                   in Inr (s'\<lparr>m_storage := (m_storage s')(dst_storage := Allocated p)\<rparr>)))
         | _ \<Rightarrow> Inl (Undefined_behaviour, s)))"

text \<open>
  \<^verbatim>\<open>m_move\<close>: in place, move-construct into the destination and destroy the source
  object; otherwise copy the pointer.
\<close>

definition callable_move ::
  "inst \<Rightarrow> ('o, 'w, 'a, 'r) callable_class \<Rightarrow> loc \<Rightarrow> loc \<Rightarrow> ('o, 'w, 'a, 'r) state
    \<Rightarrow> ('o, 'w, 'a, 'r) result" where
  "callable_move K C dst_storage src_storage s =
     (if store_inplace K C then
        (case m_storage s src_storage of
           Inplace x \<Rightarrow>
             (let (y, x', w') = move_ctor C x (world s);
                  s1 = s\<lparr>m_storage := (m_storage s)(src_storage := Inplace x',
                                                      dst_storage := Inplace y),
                         world := w'\<rparr>
              in (case m_storage s1 src_storage of
                    Inplace z \<Rightarrow>
                      Inr (s1\<lparr>m_storage := (m_storage s1)(src_storage := Raw),
                              world := dtor_op C z (world s1)\<rparr>)
                  | _ \<Rightarrow> Inl (Undefined_behaviour, s1)))
         | _ \<Rightarrow> Inl (Undefined_behaviour, s))
      else
        (case m_storage s src_storage of
           Allocated p \<Rightarrow>
             Inr (s\<lparr>m_storage := (m_storage s)(dst_storage := Allocated p)\<rparr>)
         | _ \<Rightarrow> Inl (Undefined_behaviour, s)))"

definition callable_vtable ::
  "inst \<Rightarrow> ('o, 'w, 'a, 'r) callable_class \<Rightarrow> ('o, 'w, 'a, 'r) vtable" where
  "callable_vtable K C = \<lparr>
     m_call = callable_call K C,
     m_dtor = callable_dtor K C,
     m_copy = (if copyable K then Some (callable_copy K C) else None),
     m_move = callable_move K C \<rparr>"

text \<open>\<^verbatim>\<open>m_vtable->\<close>: the table a pointer value designates.\<close>

definition deref ::
  "inst \<Rightarrow> ('o, 'w, 'a, 'r) vptr \<Rightarrow> ('o, 'w, 'a, 'r) vtable option" where
  "deref K v = (case v of
      Nullptr \<Rightarrow> None
    | Null_vtable \<Rightarrow> Some (null_vtable K)
    | Callable_vtable C \<Rightarrow> Some (callable_vtable K C))"

text \<open>
  The three call shapes of the member functions: \<^verbatim>\<open>m_vtable->m_dtor(m_storage)\<close>,
  \<^verbatim>\<open>m_vtable->m_move(dst, src)\<close> and \<^verbatim>\<open>m_vtable->m_copy(dst, src)\<close>, through the table
  pointer of the container at \<open>who\<close>. A second step runs only if the first returned.
\<close>

definition vt_dtor ::
  "inst \<Rightarrow> addr \<Rightarrow> loc \<Rightarrow> ('o, 'w, 'a, 'r) state \<Rightarrow> ('o, 'w, 'a, 'r) result" where
  "vt_dtor K who storage s = (case deref K (m_vtable s who) of
      None \<Rightarrow> Inl (Undefined_behaviour, s)
    | Some vt \<Rightarrow> m_dtor vt storage s)"

definition vt_move ::
  "inst \<Rightarrow> addr \<Rightarrow> loc \<Rightarrow> loc \<Rightarrow> ('o, 'w, 'a, 'r) state \<Rightarrow> ('o, 'w, 'a, 'r) result" where
  "vt_move K who dst_storage src_storage s = (case deref K (m_vtable s who) of
      None \<Rightarrow> Inl (Undefined_behaviour, s)
    | Some vt \<Rightarrow> m_move vt dst_storage src_storage s)"

definition vt_copy ::
  "inst \<Rightarrow> addr \<Rightarrow> loc \<Rightarrow> loc \<Rightarrow> ('o, 'w, 'a, 'r) state \<Rightarrow> ('o, 'w, 'a, 'r) result" where
  "vt_copy K who dst_storage src_storage s = (case deref K (m_vtable s who) of
      None \<Rightarrow> Inl (Undefined_behaviour, s)
    | Some vt \<Rightarrow>
        (case m_copy vt of
           None \<Rightarrow> Inl (Ill_formed, s)
         | Some f \<Rightarrow> f dst_storage src_storage s))"

definition and_then ::
  "('o, 'w, 'a, 'r) result \<Rightarrow> (('o, 'w, 'a, 'r) state \<Rightarrow> ('o, 'w, 'a, 'r) result)
    \<Rightarrow> ('o, 'w, 'a, 'r) result" where
  "and_then r f = (case r of Inl e \<Rightarrow> Inl e | Inr s \<Rightarrow> f s)"

section \<open>Owning containers\<close>

text \<open>
  The member functions of \<^verbatim>\<open>detail::copyable_function\<close>, \<^verbatim>\<open>detail::move_only_function\<close>,
  \<^verbatim>\<open>detail::inplace_move_only_function\<close> and \<^verbatim>\<open>inplace_copyable_function\<close>. The four
  classes have the same text member by member, up to the storage test and the copy
  members, so each member is one definition over the instantiation \<open>K\<close>; \<open>this\<close> and
  \<open>other\<close> are the addresses of the objects.
\<close>

definition ctor_default ::
  "inst \<Rightarrow> addr \<Rightarrow> ('o, 'w, 'a, 'r) state \<Rightarrow> ('o, 'w, 'a, 'r) state" where
  "ctor_default K this s = s\<lparr>m_vtable := (m_vtable s)(this := Null_vtable)\<rparr>"

definition ctor_nullptr ::
  "inst \<Rightarrow> addr \<Rightarrow> ('o, 'w, 'a, 'r) state \<Rightarrow> ('o, 'w, 'a, 'r) state" where
  "ctor_nullptr K this s = s\<lparr>m_vtable := (m_vtable s)(this := Null_vtable)\<rparr>"

definition ctor_copy ::
  "inst \<Rightarrow> addr \<Rightarrow> addr \<Rightarrow> ('o, 'w, 'a, 'r) state \<Rightarrow> ('o, 'w, 'a, 'r) result" where
  "ctor_copy K this other s =
     (if \<not> copyable K then Inl (Ill_formed, s)
      else
        (let s1 = s\<lparr>m_vtable := (m_vtable s)(this := m_vtable s other)\<rparr>
         in vt_copy K this (Member this) (Member other) s1))"

text \<open>
  \<^verbatim>\<open>m_vtable{ std::exchange(other.m_vtable, &null_vtable()) }\<close>: the source's pointer is
  overwritten first, then this one is set to the old value.
\<close>

definition ctor_move ::
  "inst \<Rightarrow> addr \<Rightarrow> addr \<Rightarrow> ('o, 'w, 'a, 'r) state \<Rightarrow> ('o, 'w, 'a, 'r) result" where
  "ctor_move K this other s =
     (let s1 = s\<lparr>m_vtable := (m_vtable s)(other := Null_vtable, this := m_vtable s other)\<rparr>
      in vt_move K this (Member this) (Member other) s1)"

text \<open>
  The argument \<^verbatim>\<open>std::forward<Callable>(callable)\<close> of the converting constructor and
  assignment: an lvalue is copied into the container, an rvalue is moved (the
  moved-from argument stays with the caller).
\<close>

datatype 'o forwarded = Lvalue 'o | Rvalue 'o

definition construct_from ::
  "('o, 'w, 'a, 'r) callable_class \<Rightarrow> 'o forwarded \<Rightarrow> 'w \<Rightarrow> ('o \<times> 'w) option" where
  "construct_from C arg w = (case arg of
      Lvalue x \<Rightarrow> copy_ctor C x w
    | Rvalue x \<Rightarrow> (let (y, x', w') = move_ctor C x w in Some (y, w')))"

text \<open>
  The \<^verbatim>\<open>static_assert\<close>s met when a container is bound to a \<^verbatim>\<open>Callable\<close>: nothrow
  invocable under \<^verbatim>\<open>NoExcept\<close>; in the in-place templates, \<^verbatim>\<open>sizeof\<close> within
  \<^verbatim>\<open>Capacity\<close> and, in their \<^verbatim>\<open>m_move\<close>, nothrow move constructible.
\<close>

definition fixed_capacity :: "inst \<Rightarrow> bool" where
  "fixed_capacity K = (case kind K of
      Copyable_function \<Rightarrow> False
    | Move_only_function \<Rightarrow> False
    | Inplace_copyable_function n \<Rightarrow> True
    | Inplace_move_only_function n \<Rightarrow> True)"

definition binding_ok :: "inst \<Rightarrow> ('o, 'w, 'a, 'r) callable_class \<Rightarrow> bool" where
  "binding_ok K C =
     ((NoExcept K \<longrightarrow> nothrow_invocable C)
      \<and> (fixed_capacity K \<longrightarrow> size_of C \<le> capacity K \<and> nothrow_move_constructible C))"

text \<open>
  The tail of the converting constructor and assignment: placement new into
  \<^verbatim>\<open>m_storage\<close> or \<^verbatim>\<open>m_storage.m_allocated = new callable_type{...}\<close>, with the
  constructed object \<open>y\<close>.
\<close>

definition emplace ::
  "inst \<Rightarrow> ('o, 'w, 'a, 'r) callable_class \<Rightarrow> addr \<Rightarrow> 'o \<Rightarrow> ('o, 'w, 'a, 'r) state
    \<Rightarrow> ('o, 'w, 'a, 'r) state" where
  "emplace K C this y s =
     (if store_inplace K C then s\<lparr>m_storage := (m_storage s)(Member this := Inplace y)\<rparr>
      else
        (let (p, s') = new_object y s
         in s'\<lparr>m_storage := (m_storage s')(Member this := Allocated p)\<rparr>))"

text \<open>
  The converting constructor: the table pointer is assigned, then the payload is
  constructed. An exception of the payload's constructor leaves the constructor with
  the state reached.
\<close>

definition ctor_callable ::
  "inst \<Rightarrow> addr \<Rightarrow> ('o, 'w, 'a, 'r) callable_class \<Rightarrow> 'o forwarded \<Rightarrow> ('o, 'w, 'a, 'r) state
    \<Rightarrow> ('o, 'w, 'a, 'r) result" where
  "ctor_callable K this C arg s =
     (if \<not> binding_ok K C then Inl (Ill_formed, s)
      else
        (let s1 = s\<lparr>m_vtable := (m_vtable s)(this := Callable_vtable C)\<rparr>
         in (case construct_from C arg (world s1) of
               None \<Rightarrow> Inl (Payload_exception, s1)
             | Some (y, w') \<Rightarrow> Inr (emplace K C this y (s1\<lparr>world := w'\<rparr>)))))"

definition destructor ::
  "inst \<Rightarrow> addr \<Rightarrow> ('o, 'w, 'a, 'r) state \<Rightarrow> ('o, 'w, 'a, 'r) result" where
  "destructor K this s = vt_dtor K this (Member this) s"

definition assign_copy ::
  "inst \<Rightarrow> addr \<Rightarrow> addr \<Rightarrow> ('o, 'w, 'a, 'r) state \<Rightarrow> ('o, 'w, 'a, 'r) result" where
  "assign_copy K this other s =
     (if \<not> copyable K then Inl (Ill_formed, s)
      else
        and_then (vt_dtor K this (Member this) s)
          (\<lambda>s1. vt_copy K this (Member this) (Member other) s1))"

definition assign_move ::
  "inst \<Rightarrow> addr \<Rightarrow> addr \<Rightarrow> ('o, 'w, 'a, 'r) state \<Rightarrow> ('o, 'w, 'a, 'r) result" where
  "assign_move K this other s =
     (if \<not> NDEBUG K \<and> this = other then Inl (Assertion_failed, s)
      else
        and_then (vt_dtor K this (Member this) s)
          (\<lambda>s1.
             (let s2 = s1\<lparr>m_vtable :=
                            (m_vtable s1)(other := Null_vtable, this := m_vtable s1 other)\<rparr>
              in vt_move K this (Member this) (Member other) s2)))"

text \<open>
  The member \<^verbatim>\<open>operator=(Callable&&)\<close> of the four classes. It is \<^verbatim>\<open>noexcept\<close>: an
  exception of the payload's constructor ends in \<^verbatim>\<open>std::terminate\<close>.
\<close>

definition assign_callable ::
  "inst \<Rightarrow> addr \<Rightarrow> ('o, 'w, 'a, 'r) callable_class \<Rightarrow> 'o forwarded \<Rightarrow> ('o, 'w, 'a, 'r) state
    \<Rightarrow> ('o, 'w, 'a, 'r) result" where
  "assign_callable K this C arg s =
     (if \<not> binding_ok K C then Inl (Ill_formed, s)
      else
        and_then (vt_dtor K this (Member this) s)
          (\<lambda>s1.
             (let s2 = s1\<lparr>m_vtable := (m_vtable s1)(this := Callable_vtable C)\<rparr>
              in (case construct_from C arg (world s2) of
                    None \<Rightarrow> Inl (Terminate, s2)
                  | Some (y, w') \<Rightarrow> Inr (emplace K C this y (s2\<lparr>world := w'\<rparr>))))))"

text \<open>
  The statement \<^verbatim>\<open>x = callable\<close>. \<^verbatim>\<open>sh::copyable_function\<close>,
  \<^verbatim>\<open>sh::move_only_function\<close> and \<^verbatim>\<open>sh::inplace_move_only_function\<close> derive from
  their \<^verbatim>\<open>detail\<close> class and take over its constructors only, so their implicitly
  declared assignment operators hide every \<^verbatim>\<open>operator=\<close> of the base: the callable is
  converted to a temporary container by the converting constructor, the temporary is
  move-assigned (the implicit move assignment runs the base's), and the temporary is
  destroyed. \<^verbatim>\<open>inplace_copyable_function\<close> declares \<^verbatim>\<open>operator=(Callable&&)\<close> itself,
  and the statement calls that member.
\<close>

definition assign_from_callable ::
  "inst \<Rightarrow> addr \<Rightarrow> addr \<Rightarrow> ('o, 'w, 'a, 'r) callable_class \<Rightarrow> 'o forwarded
    \<Rightarrow> ('o, 'w, 'a, 'r) state \<Rightarrow> ('o, 'w, 'a, 'r) result" where
  "assign_from_callable K this temporary C arg s =
     (let through_temporary =
        and_then (ctor_callable K temporary C arg s)
          (\<lambda>s1. and_then (assign_move K this temporary s1)
             (\<lambda>s2. destructor K temporary s2))
      in (case kind K of
            Copyable_function \<Rightarrow> through_temporary
          | Move_only_function \<Rightarrow> through_temporary
          | Inplace_copyable_function n \<Rightarrow> assign_callable K this C arg s
          | Inplace_move_only_function n \<Rightarrow> through_temporary))"

definition assign_nullptr ::
  "inst \<Rightarrow> addr \<Rightarrow> ('o, 'w, 'a, 'r) state \<Rightarrow> ('o, 'w, 'a, 'r) result" where
  "assign_nullptr K this s =
     and_then (vt_dtor K this (Member this) s)
       (\<lambda>s1. Inr (s1\<lparr>m_vtable := (m_vtable s1)(this := Null_vtable)\<rparr>))"

text \<open>\<^verbatim>\<open>operator()\<close>, with its \<^verbatim>\<open>assert(m_vtable != &null_vtable())\<close>.\<close>

definition call ::
  "inst \<Rightarrow> addr \<Rightarrow> 'a \<Rightarrow> ('o, 'w, 'a, 'r) state
    \<Rightarrow> (failure \<times> ('o, 'w, 'a, 'r) state) + ('r \<times> ('o, 'w, 'a, 'r) state)" where
  "call K this args s =
     (if \<not> NDEBUG K \<and> m_vtable s this = Null_vtable then Inl (Assertion_failed, s)
      else
        (case deref K (m_vtable s this) of
           None \<Rightarrow> Inl (Undefined_behaviour, s)
         | Some vt \<Rightarrow> m_call vt (Member this) args s))"

definition operator_bool :: "('o, 'w, 'a, 'r) state \<Rightarrow> addr \<Rightarrow> bool" where
  "operator_bool s this = (m_vtable s this \<noteq> Null_vtable)"

definition eq_nullptr :: "('o, 'w, 'a, 'r) state \<Rightarrow> addr \<Rightarrow> bool" where
  "eq_nullptr s this = (m_vtable s this = Null_vtable)"

definition ne_nullptr :: "('o, 'w, 'a, 'r) state \<Rightarrow> addr \<Rightarrow> bool" where
  "ne_nullptr s this = (m_vtable s this \<noteq> Null_vtable)"

text \<open>
  \<^verbatim>\<open>swap\<close>: a fresh local \<^verbatim>\<open>temp\<close>, three moves, then \<^verbatim>\<open>std::swap(m_vtable,
  other.m_vtable)\<close>.
\<close>

definition swap ::
  "inst \<Rightarrow> addr \<Rightarrow> addr \<Rightarrow> ('o, 'w, 'a, 'r) state \<Rightarrow> ('o, 'w, 'a, 'r) result" where
  "swap K this other s =
     (let s0 = s\<lparr>m_storage := (m_storage s)(Temp := Raw)\<rparr>
      in and_then (vt_move K this Temp (Member this) s0)
           (\<lambda>s1. and_then (vt_move K other (Member this) (Member other) s1)
              (\<lambda>s2. and_then (vt_move K this (Member other) Temp s2)
                 (\<lambda>s3. Inr (s3\<lparr>m_vtable := (m_vtable s3)(this := m_vtable s3 other,
                                                          other := m_vtable s3 this)\<rparr>)))))"

text \<open>
  What a table pointer finds in a storage: the payload type it names and the object
  the storage leads to, if both are there. What the container at an address holds is
  what its table pointer finds in its storage.
\<close>

definition payload_at ::
  "inst \<Rightarrow> ('o, 'w, 'a, 'r) state \<Rightarrow> ('o, 'w, 'a, 'r) vptr \<Rightarrow> loc
    \<Rightarrow> (('o, 'w, 'a, 'r) callable_class \<times> 'o) option" where
  "payload_at K s v l = (case v of
      Nullptr \<Rightarrow> None
    | Null_vtable \<Rightarrow> None
    | Callable_vtable C \<Rightarrow>
        (if store_inplace K C then
           (case m_storage s l of Inplace x \<Rightarrow> Some (C, x) | _ \<Rightarrow> None)
         else
           (case m_storage s l of
              Allocated p \<Rightarrow> (case heap s p of None \<Rightarrow> None | Some x \<Rightarrow> Some (C, x))
            | _ \<Rightarrow> None)))"

definition payload_of ::
  "inst \<Rightarrow> ('o, 'w, 'a, 'r) state \<Rightarrow> addr \<Rightarrow> (('o, 'w, 'a, 'r) callable_class \<times> 'o) option" where
  "payload_of K s a = payload_at K s (m_vtable s a) (Member a)"

definition holds ::
  "inst \<Rightarrow> ('o, 'w, 'a, 'r) state \<Rightarrow> addr \<Rightarrow> ('o, 'w, 'a, 'r) callable_class \<Rightarrow> 'o \<Rightarrow> bool" where
  "holds K s a C x =
     (m_vtable s a = Callable_vtable C
      \<and> (if store_inplace K C then m_storage s (Member a) = Inplace x
         else (case m_storage s (Member a) of
                 Allocated p \<Rightarrow> heap s p = Some x
               | _ \<Rightarrow> False)))"

text \<open>
  What a caller sees of an invocation: the result and the world after it, or nothing
  when the call does not return.
\<close>

definition call_result ::
  "inst \<Rightarrow> addr \<Rightarrow> 'a \<Rightarrow> ('o, 'w, 'a, 'r) state \<Rightarrow> ('r \<times> 'w) option" where
  "call_result K this args s = (case call K this args s of
      Inl e \<Rightarrow> None
    | Inr (r, s') \<Rightarrow> Some (r, world s'))"

text \<open>
  The net effect of an in-place \<^verbatim>\<open>m_move\<close> on the payload and the world: the
  move-constructed object, and the world after the moved-from source is destroyed. A
  payload is relocatable where this changes neither.
\<close>

definition relocate :: "('o, 'w, 'a, 'r) callable_class \<Rightarrow> 'o \<Rightarrow> 'w \<Rightarrow> 'o \<times> 'w" where
  "relocate C x w = (case move_ctor C x w of (y, x', w') \<Rightarrow> (y, dtor_op C x' w'))"

definition relocatable :: "('o, 'w, 'a, 'r) callable_class \<Rightarrow> 'o \<Rightarrow> 'w \<Rightarrow> bool" where
  "relocatable C x w = (relocate C x w = (x, w))"

text \<open>
  A container in a state its member functions can work on: empty, or bound to a type
  with a payload of that type where the table looks for it. It is steady when moving
  its payload in place would be a relocation.
\<close>

definition well_formed :: "inst \<Rightarrow> ('o, 'w, 'a, 'r) state \<Rightarrow> addr \<Rightarrow> bool" where
  "well_formed K s a = (case m_vtable s a of
      Nullptr \<Rightarrow> False
    | Null_vtable \<Rightarrow> True
    | Callable_vtable C \<Rightarrow> (case payload_of K s a of None \<Rightarrow> False | Some cx \<Rightarrow> True))"

definition steady :: "inst \<Rightarrow> ('o, 'w, 'a, 'r) state \<Rightarrow> addr \<Rightarrow> bool" where
  "steady K s a = (case payload_of K s a of
      None \<Rightarrow> True
    | Some (C, x) \<Rightarrow> \<not> store_inplace K C \<or> relocatable C x (world s))"


text \<open>
  A payload handed on through a chain of move constructions, as in the tests'
  \<^verbatim>\<open>T y = std::move(x); T z = std::move(y);\<close>: from the container at \<open>c\<close> into
  new containers at the listed addresses, one after the other.
\<close>

fun move_through ::
  "inst \<Rightarrow> addr \<Rightarrow> addr list \<Rightarrow> ('o, 'w, 'a, 'r) state \<Rightarrow> ('o, 'w, 'a, 'r) result" where
  "move_through K c [] s = Inr s"
| "move_through K c (d # ds) s = and_then (ctor_move K d c s) (move_through K d ds)"

section \<open>Lifetimes\<close>

text \<open>
  The states a program can reach: \<open>A\<close> is the set of addresses at which a container
  is alive. A constructor starts a lifetime where none is, the destructor ends one,
  every other member function runs on live objects. A constructor left by an exception
  starts no lifetime; an exception leaving \<^verbatim>\<open>operator()\<close> or the copy assignment leaves
  the objects alive.
\<close>

definition thrown :: "failure \<Rightarrow> bool" where
  "thrown f = (f = Payload_exception \<or> f = Bad_function_call)"

inductive reach ::
  "inst \<Rightarrow> addr set \<Rightarrow> ('o, 'w, 'a, 'r) state \<Rightarrow> bool" for K where
  start: "reach K {} s"
| default: "reach K A s \<Longrightarrow> this \<notin> A \<Longrightarrow> reach K (insert this A) (ctor_default K this s)"
| nullptr: "reach K A s \<Longrightarrow> this \<notin> A \<Longrightarrow> reach K (insert this A) (ctor_nullptr K this s)"
| copy: "reach K A s \<Longrightarrow> this \<notin> A \<Longrightarrow> other \<in> A \<Longrightarrow> ctor_copy K this other s = Inr s'
    \<Longrightarrow> reach K (insert this A) s'"
| copy_throws: "reach K A s \<Longrightarrow> this \<notin> A \<Longrightarrow> other \<in> A
    \<Longrightarrow> ctor_copy K this other s = Inl (f, s') \<Longrightarrow> thrown f \<Longrightarrow> reach K A s'"
| move: "reach K A s \<Longrightarrow> this \<notin> A \<Longrightarrow> other \<in> A \<Longrightarrow> ctor_move K this other s = Inr s'
    \<Longrightarrow> reach K (insert this A) s'"
| callable: "reach K A s \<Longrightarrow> this \<notin> A \<Longrightarrow> ctor_callable K this C arg s = Inr s'
    \<Longrightarrow> reach K (insert this A) s'"
| callable_throws: "reach K A s \<Longrightarrow> this \<notin> A
    \<Longrightarrow> ctor_callable K this C arg s = Inl (f, s') \<Longrightarrow> thrown f \<Longrightarrow> reach K A s'"
| destroy: "reach K A s \<Longrightarrow> this \<in> A \<Longrightarrow> destructor K this s = Inr s'
    \<Longrightarrow> reach K (A - {this}) s'"
| copy_assign: "reach K A s \<Longrightarrow> this \<in> A \<Longrightarrow> other \<in> A
    \<Longrightarrow> assign_copy K this other s = Inr s' \<Longrightarrow> reach K A s'"
| copy_assign_throws: "reach K A s \<Longrightarrow> this \<in> A \<Longrightarrow> other \<in> A
    \<Longrightarrow> assign_copy K this other s = Inl (f, s') \<Longrightarrow> thrown f \<Longrightarrow> reach K A s'"
| move_assign: "reach K A s \<Longrightarrow> this \<in> A \<Longrightarrow> other \<in> A
    \<Longrightarrow> assign_move K this other s = Inr s' \<Longrightarrow> reach K A s'"
| callable_assign: "reach K A s \<Longrightarrow> this \<in> A
    \<Longrightarrow> assign_callable K this C arg s = Inr s' \<Longrightarrow> reach K A s'"
| nullptr_assign: "reach K A s \<Longrightarrow> this \<in> A \<Longrightarrow> assign_nullptr K this s = Inr s'
    \<Longrightarrow> reach K A s'"
| invoke: "reach K A s \<Longrightarrow> this \<in> A \<Longrightarrow> call K this args s = Inr (r, s')
    \<Longrightarrow> reach K A s'"
| invoke_throws: "reach K A s \<Longrightarrow> this \<in> A \<Longrightarrow> call K this args s = Inl (f, s')
    \<Longrightarrow> thrown f \<Longrightarrow> reach K A s'"
| swapped: "reach K A s \<Longrightarrow> this \<in> A \<Longrightarrow> other \<in> A \<Longrightarrow> swap K this other s = Inr s'
    \<Longrightarrow> reach K A s'"

section \<open>Non-owning wrappers\<close>

text \<open>
  \<^verbatim>\<open>function_ptr\<close> and \<^verbatim>\<open>function_ref\<close> keep a \<^verbatim>\<open>void*\<close> and a pointer to a
  specialisation of \<^verbatim>\<open>function_ptr_invoke_target\<close> (\<^verbatim>\<open>function_ref_invoke_target\<close>),
  which casts the \<^verbatim>\<open>void*\<close> to its first template argument and calls through it.
  The types that matter are functions, class types, pointers and lvalue references
  (member pointers and the wrapper's own type, which \<^verbatim>\<open>enable_if\<close> excludes, are left
  out); \<^verbatim>\<open>std::is_pointer_v\<close> is false of a reference to a pointer, and
  \<^verbatim>\<open>std::add_pointer_t\<close> drops a reference before adding the pointer.
\<close>

type_synonym ptr = nat

datatype cpp_type =
  Function | Class_type nat | Pointer cpp_type | Lvalue_reference cpp_type

definition is_pointer_v :: "cpp_type \<Rightarrow> bool" where
  "is_pointer_v t = (case t of Pointer u \<Rightarrow> True | _ \<Rightarrow> False)"

definition add_pointer_t :: "cpp_type \<Rightarrow> cpp_type" where
  "add_pointer_t t = (case t of Lvalue_reference u \<Rightarrow> Pointer u | _ \<Rightarrow> Pointer t)"

text \<open>
  An argument bound to the forwarding reference \<^verbatim>\<open>Callable&& callable\<close>: the deduced
  \<^verbatim>\<open>Callable\<close> (\<^verbatim>\<open>T&\<close> for an lvalue of type \<^verbatim>\<open>T\<close>, \<^verbatim>\<open>T\<close> for an rvalue), the address
  \<^verbatim>\<open>std::addressof(callable)\<close> of the object or function referred to, the value
  \<^verbatim>\<open>reinterpret_cast<void*>(callable)\<close> when that object is a pointer, and whether a
  call of it is \<^verbatim>\<open>noexcept\<close>.
\<close>

record argument =
  Callable :: cpp_type
  addressof :: ptr
  pointer_value :: ptr
  nothrow :: bool

text \<open>The null pointer is 0. A member not yet written holds no specialisation.\<close>

record wrapper =
  m_target :: ptr
  m_invoke_target :: "cpp_type option"

definition function_ptr_default :: "wrapper \<Rightarrow> wrapper" where
  "function_ptr_default uninitialised = uninitialised\<lparr>m_target := 0\<rparr>"

text \<open>\<^verbatim>\<open>function_ptr::assign\<close>, with its \<^verbatim>\<open>static_assert\<close>.\<close>

definition assign :: "bool \<Rightarrow> argument \<Rightarrow> wrapper \<Rightarrow> failure + wrapper" where
  "assign noexcept callable this =
     (if noexcept \<and> \<not> nothrow callable then Inl Ill_formed
      else if is_pointer_v (Callable callable) then
        Inr (this\<lparr>m_target := pointer_value callable,
                  m_invoke_target := Some (Callable callable)\<rparr>)
      else
        Inr (this\<lparr>m_target := addressof callable,
                  m_invoke_target := Some (add_pointer_t (Callable callable))\<rparr>))"

definition function_ptr_callable :: "bool \<Rightarrow> argument \<Rightarrow> wrapper \<Rightarrow> failure + wrapper" where
  "function_ptr_callable noexcept callable uninitialised = assign noexcept callable uninitialised"

text \<open>
  The move constructor and move assignment of \<^verbatim>\<open>function_ptr\<close> are \<^verbatim>\<open>= default\<close>:
  both members are copied. The pair is the object written and the source afterwards.
\<close>

definition function_ptr_move :: "wrapper \<Rightarrow> wrapper \<times> wrapper" where
  "function_ptr_move other =
     (\<lparr>m_target = m_target other, m_invoke_target = m_invoke_target other\<rparr>, other)"

definition function_ptr_bool :: "wrapper \<Rightarrow> bool" where
  "function_ptr_bool this = (m_target this \<noteq> 0)"

text \<open>
  The converting constructor of \<^verbatim>\<open>function_ref\<close>: \<^verbatim>\<open>enable_if\<close> removes it for a
  \<^verbatim>\<open>Callable\<close> that is a pointer type.
\<close>

definition function_ref_callable :: "bool \<Rightarrow> argument \<Rightarrow> failure + wrapper" where
  "function_ref_callable noexcept callable =
     (if is_pointer_v (Callable callable) then Inl Ill_formed
      else if noexcept \<and> \<not> nothrow callable then Inl Ill_formed
      else
        Inr \<lparr>m_target = addressof callable,
             m_invoke_target = Some (add_pointer_t (Callable callable))\<rparr>)"

section \<open>Test fixtures\<close>

text \<open>
  The payload of the repository's tests, a lambda \<^verbatim>\<open>[c = counter(&value)]\<close> padded to
  \<open>n\<close> bytes: the object is whether \<^verbatim>\<open>c.m_value\<close> points at \<^verbatim>\<open>value\<close>, the world is
  \<^verbatim>\<open>value\<close>. Copying counts up, destroying counts down, moving nulls the source. Called
  on \<open>i\<close> it returns \<open>i + 1\<close>, as \<^verbatim>\<open>plus_1\<close>.
\<close>

definition counter_lambda :: "nat \<Rightarrow> (bool, int, int, int) callable_class" where
  "counter_lambda n = \<lparr>
     size_of = n,
     nothrow_move_constructible = True,
     nothrow_invocable = True,
     invoke_op = (\<lambda>x i w. Some (i + 1, x, w)),
     copy_ctor = (\<lambda>x w. Some (x, if x then w + 1 else w)),
     move_ctor = (\<lambda>x w. (x, False, w)),
     dtor_op = (\<lambda>x w. if x then w - 1 else w) \<rparr>"

text \<open>The same payload with a copy constructor that throws.\<close>

definition throwing_copy :: "nat \<Rightarrow> (bool, int, int, int) callable_class" where
  "throwing_copy n = (counter_lambda n)\<lparr>copy_ctor := (\<lambda>x w. None)\<rparr>"

definition fresh :: "(bool, int, int, int) state" where
  "fresh = \<lparr>m_vtable = (\<lambda>a. Nullptr), m_storage = (\<lambda>l. Raw), heap = (\<lambda>p. None),
     brk = 100, world = 0\<rparr>"

text \<open>
  The arguments of the tests of \<^verbatim>\<open>function_ptr\<close>: the function \<^verbatim>\<open>invert_bool\<close>, an
  lvalue of function type; the prvalue \<^verbatim>\<open>&invert_bool\<close>, held by a temporary; and a
  variable \<^verbatim>\<open>fp\<close> of function pointer type that holds \<^verbatim>\<open>&invert_bool\<close>. The function
  is at 4096, the temporary at 512, the variable at 768.
\<close>

definition invert_bool :: argument where
  "invert_bool = \<lparr>Callable = Lvalue_reference Function, addressof = 4096,
     pointer_value = 0, nothrow = False\<rparr>"

definition address_of_invert_bool :: argument where
  "address_of_invert_bool = \<lparr>Callable = Pointer Function, addressof = 512,
     pointer_value = 4096, nothrow = False\<rparr>"

definition fp :: argument where
  "fp = \<lparr>Callable = Lvalue_reference (Pointer Function), addressof = 768,
     pointer_value = 4096, nothrow = False\<rparr>"

definition on64 :: "family \<Rightarrow> bool \<Rightarrow> bool \<Rightarrow> inst" where
  "on64 k ne nd = \<lparr>kind = k, NoExcept = ne, sizeof_ptr = 8, NDEBUG = nd\<rparr>"

text \<open>
  The state after \<^verbatim>\<open>T x(lambda); T y;\<close>: the container at 10 bound to the test
  payload of \<open>n\<close> bytes, the container at 20 default-constructed.
\<close>

definition bound :: "inst \<Rightarrow> nat \<Rightarrow> (bool, int, int, int) state" where
  "bound K n =
     ctor_default K 20
       (case ctor_callable K 10 (counter_lambda n) (Lvalue True) fresh of
          Inl (f, s) \<Rightarrow> s
        | Inr s \<Rightarrow> s)"

section \<open>Properties of the operation tables\<close>

lemma vt_dtor_simps:
  "m_vtable s a = Null_vtable \<Longrightarrow> vt_dtor K a l s = Inr s"
  "m_vtable s a = Callable_vtable C \<Longrightarrow> vt_dtor K a l s = callable_dtor K C l s"
  "m_vtable s a = Nullptr \<Longrightarrow> vt_dtor K a l s = Inl (Undefined_behaviour, s)"
  by (simp_all add: vt_dtor_def deref_def null_vtable_def callable_vtable_def)

lemma vt_move_simps:
  "m_vtable s a = Null_vtable \<Longrightarrow> vt_move K a d l s = Inr s"
  "m_vtable s a = Callable_vtable C \<Longrightarrow> vt_move K a d l s = callable_move K C d l s"
  "m_vtable s a = Nullptr \<Longrightarrow> vt_move K a d l s = Inl (Undefined_behaviour, s)"
  by (simp_all add: vt_move_def deref_def null_vtable_def callable_vtable_def)

lemma vt_copy_simps:
  "m_vtable s a = Null_vtable \<Longrightarrow> copyable K \<Longrightarrow> vt_copy K a d l s = Inr s"
  "m_vtable s a = Callable_vtable C \<Longrightarrow> copyable K \<Longrightarrow> vt_copy K a d l s = callable_copy K C d l s"
  "m_vtable s a = Nullptr \<Longrightarrow> vt_copy K a d l s = Inl (Undefined_behaviour, s)"
  "m_vtable s a \<noteq> Nullptr \<Longrightarrow> \<not> copyable K \<Longrightarrow> vt_copy K a d l s = Inl (Ill_formed, s)"
  by (cases "m_vtable s a"; simp add: vt_copy_def deref_def null_vtable_def callable_vtable_def)+

text \<open>No operation of a table writes a table pointer.\<close>

lemma callable_dtor_vtable:
  "callable_dtor K C l s = Inr s' \<Longrightarrow> m_vtable s' = m_vtable s"
  "callable_dtor K C l s = Inl (f, s') \<Longrightarrow> m_vtable s' = m_vtable s"
  by (auto simp: callable_dtor_def split: if_splits storage.splits option.splits)

lemma callable_move_vtable:
  "callable_move K C d l s = Inr s' \<Longrightarrow> m_vtable s' = m_vtable s"
  "callable_move K C d l s = Inl (f, s') \<Longrightarrow> m_vtable s' = m_vtable s"
  by (auto simp: callable_move_def Let_def split: if_splits storage.splits option.splits prod.splits)

lemma callable_copy_vtable:
  "callable_copy K C d l s = Inr s' \<Longrightarrow> m_vtable s' = m_vtable s"
  "callable_copy K C d l s = Inl (f, s') \<Longrightarrow> m_vtable s' = m_vtable s"
  by (auto simp: callable_copy_def new_object_def Let_def split: if_splits storage.splits option.splits prod.splits)

lemma callable_call_vtable:
  "callable_call K C l args s = Inr (r, s') \<Longrightarrow> m_vtable s' = m_vtable s"
  "callable_call K C l args s = Inl (f, s') \<Longrightarrow> m_vtable s' = m_vtable s"
  by (auto simp: callable_call_def split: if_splits storage.splits option.splits prod.splits)

lemma vt_dtor_vtable:
  "vt_dtor K a l s = Inr s' \<Longrightarrow> m_vtable s' = m_vtable s"
  "vt_dtor K a l s = Inl (f, s') \<Longrightarrow> m_vtable s' = m_vtable s"
  by (cases "m_vtable s a"; auto simp: vt_dtor_simps dest: callable_dtor_vtable)+

lemma vt_move_vtable:
  "vt_move K a d l s = Inr s' \<Longrightarrow> m_vtable s' = m_vtable s"
  "vt_move K a d l s = Inl (f, s') \<Longrightarrow> m_vtable s' = m_vtable s"
  by (cases "m_vtable s a"; auto simp: vt_move_simps dest: callable_move_vtable)+

lemma vt_copy_vtable:
  "vt_copy K a d l s = Inr s' \<Longrightarrow> m_vtable s' = m_vtable s"
  "vt_copy K a d l s = Inl (f, s') \<Longrightarrow> m_vtable s' = m_vtable s"
  by (cases "m_vtable s a"; cases "copyable K"; auto simp: vt_copy_simps dest: callable_copy_vtable)+

lemma emplace_vtable: "m_vtable (emplace K C a y s) = m_vtable s"
  by (simp add: emplace_def new_object_def)


lemma call_vtable:
  "call K a args s = Inr (r, s') \<Longrightarrow> m_vtable s' = m_vtable s"
  "call K a args s = Inl (f, s') \<Longrightarrow> m_vtable s' = m_vtable s"
  by (cases "m_vtable s a"; auto simp: call_def deref_def null_vtable_def callable_vtable_def
      dest: callable_call_vtable split: if_splits)+

lemma reach_nonnull: "reach K A s \<Longrightarrow> a \<in> A \<Longrightarrow> m_vtable s a \<noteq> Nullptr"
proof (induction arbitrary: a rule: reach.induct)
  case (start s)
  then show ?case by simp
next
  case (default A s this)
  then show ?case by (auto simp: ctor_default_def)
next
  case (nullptr A s this)
  then show ?case by (auto simp: ctor_nullptr_def)
next
  case (copy A s this other s')
  then show ?case
    by (auto simp: ctor_copy_def Let_def split: if_splits dest!: vt_copy_vtable)
next
  case (copy_throws A s this other f s')
  then show ?case
    by (auto simp: ctor_copy_def Let_def split: if_splits dest!: vt_copy_vtable)
next
  case (move A s this other s')
  then show ?case
    by (auto simp: ctor_move_def Let_def split: if_splits dest!: vt_move_vtable)
next
  case (callable A s this C arg s')
  then show ?case
    by (auto simp: ctor_callable_def Let_def emplace_vtable split: if_splits option.splits)
next
  case (callable_throws A s this C arg f s')
  then show ?case
    by (auto simp: ctor_callable_def Let_def emplace_vtable split: if_splits option.splits)
next
  case (destroy A s this s')
  then show ?case by (auto simp: destructor_def dest!: vt_dtor_vtable)
next
  case (copy_assign A s this other s')
  then show ?case
    by (auto simp: assign_copy_def and_then_def split: if_splits sum.splits
        dest!: vt_copy_vtable vt_dtor_vtable)
next
  case (copy_assign_throws A s this other f s')
  then show ?case
    by (auto simp: assign_copy_def and_then_def split: if_splits sum.splits
        dest!: vt_copy_vtable vt_dtor_vtable)
next
  case (move_assign A s this other s')
  then show ?case
    by (auto simp: assign_move_def and_then_def Let_def split: if_splits sum.splits
        dest!: vt_move_vtable vt_dtor_vtable)
next
  case (callable_assign A s this C arg s')
  then show ?case
    by (auto simp: assign_callable_def and_then_def Let_def emplace_vtable
        split: if_splits sum.splits option.splits dest!: vt_dtor_vtable)
next
  case (nullptr_assign A s this s')
  then show ?case
    by (auto simp: assign_nullptr_def and_then_def split: sum.splits if_splits
        dest!: vt_dtor_vtable)
next
  case (invoke A s this args r s')
  then show ?case by (auto dest!: call_vtable)
next
  case (invoke_throws A s this args f s')
  then show ?case by (auto dest!: call_vtable)
next
  case (swapped A s this other s')
  then show ?case
    by (auto simp: swap_def and_then_def Let_def split: sum.splits if_splits
        dest!: vt_move_vtable)
qed


lemma emplace_storage:
  "store_inplace K C \<Longrightarrow> emplace K C a y s = s\<lparr>m_storage := (m_storage s)(Member a := Inplace y)\<rparr>"
  "\<not> store_inplace K C \<Longrightarrow> emplace K C a y s =
     s\<lparr>heap := (heap s)(brk s := Some y), brk := Suc (brk s),
       m_storage := (m_storage s)(Member a := Allocated (brk s))\<rparr>"
  by (simp_all add: emplace_def new_object_def)

lemmas fixture_defs = on64_def counter_lambda_def fresh_def throwing_copy_def

section \<open>Fixtures evaluated\<close>

lemma counter_lambda_simps:
  "size_of (counter_lambda n) = n"
  "nothrow_move_constructible (counter_lambda n)"
  "nothrow_invocable (counter_lambda n)"
  "invoke_op (counter_lambda n) x i w = Some (i + 1, x, w)"
  "copy_ctor (counter_lambda n) x w = Some (x, if x then w + 1 else w)"
  "move_ctor (counter_lambda n) x w = (x, False, w)"
  "dtor_op (counter_lambda n) x w = (if x then w - 1 else w)"
  by (simp_all add: counter_lambda_def)

lemma on64_simps:
  "kind (on64 k ne nd) = k" "NoExcept (on64 k ne nd) = ne"
  "sizeof_ptr (on64 k ne nd) = 8" "NDEBUG (on64 k ne nd) = nd"
  by (simp_all add: on64_def)

lemma fresh_simps:
  "m_vtable fresh a = Nullptr" "m_storage fresh l = Raw" "heap fresh p = None"
  "brk fresh = 100" "world fresh = 0"
  by (simp_all add: fresh_def)

lemma ctor_callable_ok:
  "binding_ok K C \<Longrightarrow> construct_from C arg (world s) = Some (y, w') \<Longrightarrow>
   ctor_callable K this C arg s =
     Inr (emplace K C this y
           (s\<lparr>m_vtable := (m_vtable s)(this := Callable_vtable C), world := w'\<rparr>))"
  by (simp add: ctor_callable_def)

lemma construct_counter_lambda:
  "construct_from (counter_lambda n) (Lvalue True) w = Some (True, w + 1)"
  by (simp add: construct_from_def counter_lambda_simps)

lemma bound_eval:
  "bound (on64 k ne nd) n =
     emplace (on64 k ne nd) (counter_lambda n) 10 True
       (fresh\<lparr>m_vtable := (m_vtable fresh)(10 := Callable_vtable (counter_lambda n)),
              world := 1\<rparr>)
     \<lparr>m_vtable := (m_vtable fresh)(10 := Callable_vtable (counter_lambda n), 20 := Null_vtable)\<rparr>"
  if "binding_ok (on64 k ne nd) (counter_lambda n)"
  using that
  by (simp add: bound_def ctor_callable_def ctor_default_def construct_from_def emplace_vtable
      fresh_simps counter_lambda_simps)

lemma bound_reach:
  assumes ok: "binding_ok (on64 k ne nd) (counter_lambda n)"
  shows "reach (on64 k ne nd) {10, 20} (bound (on64 k ne nd) n)"
proof -
  let ?K = "on64 k ne nd"
  obtain s where c: "ctor_callable ?K 10 (counter_lambda n) (Lvalue True) fresh = Inr s"
    using ctor_callable_ok [OF ok construct_counter_lambda] by blast
  have "reach ?K {} fresh"
    by (rule reach.start)
  then have "reach ?K (insert 10 {}) s"
    using c by (auto intro: reach.callable)
  then have "reach ?K (insert 20 (insert 10 {})) (ctor_default ?K 20 s)"
    by (auto intro: reach.default)
  moreover have "bound ?K n = ctor_default ?K 20 s"
    using c by (simp add: bound_def)
  moreover have "insert 20 (insert 10 {}) = {10, 20::nat}"
    by auto
  ultimately show ?thesis
    by simp
qed


lemma holds_inplace:
  "store_inplace K C \<Longrightarrow>
   holds K s a C x \<longleftrightarrow> m_vtable s a = Callable_vtable C \<and> m_storage s (Member a) = Inplace x"
  by (simp add: holds_def)

lemma holds_heap:
  "\<not> store_inplace K C \<Longrightarrow>
   holds K s a C x \<longleftrightarrow>
     m_vtable s a = Callable_vtable C
     \<and> (\<exists>p. m_storage s (Member a) = Allocated p \<and> heap s p = Some x)"
  by (auto simp: holds_def split: storage.splits)

lemma holds_vtable: "holds K s a C x \<Longrightarrow> m_vtable s a = Callable_vtable C"
  by (simp add: holds_def)

lemma bound_holds:
  assumes ok: "binding_ok (on64 k ne nd) (counter_lambda n)"
  shows "holds (on64 k ne nd) (bound (on64 k ne nd) n) 10 (counter_lambda n) True"
    and "m_vtable (bound (on64 k ne nd) n) 20 = Null_vtable"
    and "world (bound (on64 k ne nd) n) = 1"
  by (cases "store_inplace (on64 k ne nd) (counter_lambda n)";
      simp add: bound_eval [OF ok] emplace_storage holds_def fresh_simps)+

lemma binding_ok_on64:
  "binding_ok (on64 Copyable_function ne nd) (counter_lambda n)"
  "binding_ok (on64 Move_only_function ne nd) (counter_lambda n)"
  "n \<le> c \<Longrightarrow> binding_ok (on64 (Inplace_copyable_function c) ne nd) (counter_lambda n)"
  "n \<le> c \<Longrightarrow> binding_ok (on64 (Inplace_move_only_function c) ne nd) (counter_lambda n)"
  by (simp_all add: binding_ok_def fixed_capacity_def capacity_def on64_simps counter_lambda_simps)

section \<open>The table pointer\<close>

text \<open>
  Claim C9. In every state a program reaches, the table pointer of every live owning
  container is not the null pointer. Default construction, construction from
  \<^verbatim>\<open>nullptr\<close> and assignment of \<^verbatim>\<open>nullptr\<close> set it to the empty table; a move leaves
  the source at the empty table and gives the destination the source's old pointer;
  binding a callable sets it to the table of the callable's type. The null tests
  compare the pointer with the empty table and read nothing else.
\<close>

theorem table_pointer_never_null:
  "(reach K A s \<longrightarrow> a \<in> A \<longrightarrow> m_vtable s a \<noteq> Nullptr)
   \<and> m_vtable (ctor_default K this s) this = Null_vtable
   \<and> m_vtable (ctor_nullptr K this s) this = Null_vtable
   \<and> (assign_nullptr K this s = Inr s1 \<longrightarrow> m_vtable s1 this = Null_vtable)
   \<and> (this \<noteq> other \<longrightarrow> ctor_move K this other s = Inr s2 \<longrightarrow>
        m_vtable s2 other = Null_vtable \<and> m_vtable s2 this = m_vtable s other)
   \<and> (this \<noteq> other \<longrightarrow> assign_move K this other s = Inr s3 \<longrightarrow>
        m_vtable s3 other = Null_vtable \<and> m_vtable s3 this = m_vtable s other)
   \<and> (ctor_callable K this C arg s = Inr s4 \<longrightarrow> m_vtable s4 this = Callable_vtable C)
   \<and> (assign_callable K this C arg s = Inr s5 \<longrightarrow> m_vtable s5 this = Callable_vtable C)
   \<and> (operator_bool s a \<longleftrightarrow> m_vtable s a \<noteq> Null_vtable)
   \<and> (eq_nullptr s a \<longleftrightarrow> m_vtable s a = Null_vtable)
   \<and> (ne_nullptr s a \<longleftrightarrow> m_vtable s a \<noteq> Null_vtable)"
proof (intro conjI impI)
  show "m_vtable s a \<noteq> Nullptr" if "reach K A s" "a \<in> A"
    using that by (rule reach_nonnull)
  show "m_vtable (ctor_default K this s) this = Null_vtable"
    by (simp add: ctor_default_def)
  show "m_vtable (ctor_nullptr K this s) this = Null_vtable"
    by (simp add: ctor_nullptr_def)
  show "m_vtable s1 this = Null_vtable" if "assign_nullptr K this s = Inr s1"
    using that by (auto simp: assign_nullptr_def and_then_def split: sum.splits)
  show "m_vtable s2 other = Null_vtable" if "this \<noteq> other" "ctor_move K this other s = Inr s2"
    using that by (auto simp: ctor_move_def Let_def dest!: vt_move_vtable(1))
  show "m_vtable s2 this = m_vtable s other" if "this \<noteq> other" "ctor_move K this other s = Inr s2"
    using that by (auto simp: ctor_move_def Let_def dest!: vt_move_vtable(1))
  show "m_vtable s3 other = Null_vtable" if "this \<noteq> other" "assign_move K this other s = Inr s3"
    using that
    by (auto simp: assign_move_def and_then_def Let_def split: if_splits sum.splits
        dest!: vt_move_vtable(1) vt_dtor_vtable(1))
  show "m_vtable s3 this = m_vtable s other" if "this \<noteq> other" "assign_move K this other s = Inr s3"
    using that
    by (auto simp: assign_move_def and_then_def Let_def split: if_splits sum.splits
        dest!: vt_move_vtable(1) vt_dtor_vtable(1))
  show "m_vtable s4 this = Callable_vtable C" if "ctor_callable K this C arg s = Inr s4"
    using that
    by (auto simp: ctor_callable_def Let_def emplace_vtable split: if_splits option.splits)
  show "m_vtable s5 this = Callable_vtable C" if "assign_callable K this C arg s = Inr s5"
    using that
    by (auto simp: assign_callable_def and_then_def Let_def emplace_vtable
        split: if_splits sum.splits option.splits)
qed (simp_all add: operator_bool_def eq_nullptr_def ne_nullptr_def)


theorem table_pointer_never_null_witness:
  "m_vtable (bound (on64 Copyable_function False True) 8) 10 \<noteq> Nullptr
   \<and> m_vtable (bound (on64 Copyable_function False True) 8) 20 \<noteq> Nullptr
   \<and> (\<exists>s1. assign_nullptr (on64 Copyable_function False True) 10
              (bound (on64 Copyable_function False True) 8) = Inr s1
          \<and> m_vtable s1 10 = Null_vtable)
   \<and> (\<exists>s2. ctor_move (on64 Copyable_function False True) 30 10
              (bound (on64 Copyable_function False True) 8) = Inr s2
          \<and> m_vtable s2 10 = Null_vtable \<and> m_vtable s2 30 = Callable_vtable (counter_lambda 8))
   \<and> (\<exists>s3. assign_move (on64 Copyable_function False True) 20 10
              (bound (on64 Copyable_function False True) 8) = Inr s3
          \<and> m_vtable s3 10 = Null_vtable \<and> m_vtable s3 20 = Callable_vtable (counter_lambda 8))
   \<and> (\<exists>s4. ctor_callable (on64 Copyable_function False True) 30 (counter_lambda 24) (Lvalue True)
              (bound (on64 Copyable_function False True) 8) = Inr s4
          \<and> m_vtable s4 30 = Callable_vtable (counter_lambda 24))
   \<and> (\<exists>s5. assign_callable (on64 Copyable_function False True) 20 (counter_lambda 24)
              (Lvalue True) (bound (on64 Copyable_function False True) 8) = Inr s5
          \<and> m_vtable s5 20 = Callable_vtable (counter_lambda 24))"
proof -
  let ?K = "on64 Copyable_function False True"
  let ?s = "bound ?K 8"
  note ok = binding_ok_on64(1) [of False True]
  have h: "holds ?K ?s 10 (counter_lambda 8) True" and e: "m_vtable ?s 20 = Null_vtable"
    by (rule bound_holds [OF ok])+
  have inl: "store_inplace ?K (counter_lambda 8)"
    by (simp add: store_inplace_def capacity_def on64_simps counter_lambda_simps)
  from h inl have v: "m_vtable ?s 10 = Callable_vtable (counter_lambda 8)"
    and st: "m_storage ?s (Member 10) = Inplace True"
    by (simp_all add: holds_inplace)
  have r: "reach ?K {10, 20} ?s"
    by (rule bound_reach [OF ok])
  note T = table_pointer_never_null [where K = ?K and s = ?s and A = "{10, 20}"]
  have 1: "m_vtable ?s 10 \<noteq> Nullptr"
    using T [where a = 10] r by simp
  have 2: "m_vtable ?s 20 \<noteq> Nullptr"
    using T [where a = 20] r by simp
  obtain s1 where a1: "assign_nullptr ?K 10 ?s = Inr s1"
    using v st inl
    by (simp add: assign_nullptr_def and_then_def vt_dtor_simps callable_dtor_def)
  have 3: "m_vtable s1 10 = Null_vtable"
    using T [where this = 10 and ?s1.0 = s1] a1 by simp
  obtain s2 where a2: "ctor_move ?K 30 10 ?s = Inr s2"
    using v st inl
    by (simp add: ctor_move_def Let_def vt_move_simps callable_move_def counter_lambda_simps)
  have 4: "m_vtable s2 10 = Null_vtable \<and> m_vtable s2 30 = Callable_vtable (counter_lambda 8)"
    using T [where this = 30 and other = 10 and ?s2.0 = s2] a2 v by simp
  obtain s3 where a3: "assign_move ?K 20 10 ?s = Inr s3"
    using v st inl e
    by (simp add: assign_move_def and_then_def Let_def vt_dtor_simps vt_move_simps
        callable_move_def counter_lambda_simps)
  have 5: "m_vtable s3 10 = Null_vtable \<and> m_vtable s3 20 = Callable_vtable (counter_lambda 8)"
    using T [where this = 20 and other = 10 and ?s3.0 = s3] a3 v by simp
  obtain s4 where a4: "ctor_callable ?K 30 (counter_lambda 24) (Lvalue True) ?s = Inr s4"
    using ctor_callable_ok [OF binding_ok_on64(1) construct_counter_lambda] by blast
  have 6: "m_vtable s4 30 = Callable_vtable (counter_lambda 24)"
    using T [where this = 30 and C = "counter_lambda 24" and arg = "Lvalue True" and ?s4.0 = s4]
      a4 by simp
  obtain s5 where a5: "assign_callable ?K 20 (counter_lambda 24) (Lvalue True) ?s = Inr s5"
    using e
    by (simp add: assign_callable_def and_then_def Let_def vt_dtor_simps binding_ok_on64
        construct_counter_lambda)
  have 7: "m_vtable s5 20 = Callable_vtable (counter_lambda 24)"
    using T [where this = 20 and C = "counter_lambda 24" and arg = "Lvalue True" and ?s5.0 = s5]
      a5 by simp
  show ?thesis
    using 1 2 3 4 5 6 7 a1 a2 a3 a4 a5 by blast
qed

section \<open>Assigning the null sentinel\<close>

text \<open>
  Claim C10. When an owning container holds a payload, \<^verbatim>\<open>operator=(nullptr)\<close> returns
  with the world changed by one run of the payload's destructor and nothing more; the
  container then compares equal to \<^verbatim>\<open>nullptr\<close>, converts to \<^verbatim>\<open>false\<close> and holds no
  payload, and its destructor leaves the whole state as it is.
\<close>

theorem null_assignment_destroys_once:
  assumes "holds K s this C x"
  shows "\<exists>s'. assign_nullptr K this s = Inr s'
    \<and> world s' = dtor_op C x (world s)
    \<and> eq_nullptr s' this \<and> \<not> operator_bool s' this
    \<and> payload_of K s' this = None
    \<and> destructor K this s' = Inr s'"
proof (cases "store_inplace K C")
  case True
  with assms have "m_vtable s this = Callable_vtable C" "m_storage s (Member this) = Inplace x"
    by (simp_all add: holds_inplace)
  with True show ?thesis
    by (simp add: assign_nullptr_def destructor_def and_then_def vt_dtor_simps callable_dtor_def
        eq_nullptr_def operator_bool_def payload_of_def payload_at_def)
next
  case False
  with assms obtain p where "m_vtable s this = Callable_vtable C"
    "m_storage s (Member this) = Allocated p" "heap s p = Some x"
    by (auto simp: holds_heap)
  with False show ?thesis
    by (simp add: assign_nullptr_def destructor_def and_then_def vt_dtor_simps callable_dtor_def
        eq_nullptr_def operator_bool_def payload_of_def payload_at_def)
qed

theorem null_assignment_destroys_once_witness:
  "\<exists>s'. assign_nullptr (on64 Move_only_function True False) 10
          (bound (on64 Move_only_function True False) 64) = Inr s'
    \<and> world s' = 0 \<and> eq_nullptr s' 10 \<and> destructor (on64 Move_only_function True False) 10 s' = Inr s'"
  using null_assignment_destroys_once [OF bound_holds(1) [OF binding_ok_on64(2)],
      of True False 64]
  by (auto simp: bound_holds(3) [OF binding_ok_on64(2)] counter_lambda_simps)


section \<open>Invoking an empty container\<close>

text \<open>
  Claim C6, amended. The call operation of the empty table ends in
  \<^verbatim>\<open>std::terminate\<close> under a \<^verbatim>\<open>noexcept\<close> signature and throws
  \<^verbatim>\<open>std::bad_function_call\<close> otherwise; its destroy, move and (where the table has
  one) copy operations change nothing. \<^verbatim>\<open>operator()\<close> of an empty container reaches
  that call operation when assertions are compiled out, and fails its assertion
  otherwise.
\<close>

theorem empty_table_operations:
  "m_call (null_vtable K) storage args s
     = Inl (if NoExcept K then Terminate else Bad_function_call, s)
   \<and> m_dtor (null_vtable K) storage s = Inr s
   \<and> m_move (null_vtable K) dst src s = Inr s
   \<and> (copyable K \<longrightarrow> (\<exists>f. m_copy (null_vtable K) = Some f \<and> f dst src s = Inr s))
   \<and> (m_vtable s this = Null_vtable \<longrightarrow>
        call K this args s
          = (if NDEBUG K then m_call (null_vtable K) (Member this) args s
             else Inl (Assertion_failed, s)))"
  by (simp add: null_vtable_def call_def deref_def)

theorem empty_table_operations_witness:
  "call (on64 Copyable_function False True) 20 (0::int) (bound (on64 Copyable_function False True) 8)
     = Inl (Bad_function_call, bound (on64 Copyable_function False True) 8)
   \<and> call (on64 Copyable_function True True) 20 (0::int) (bound (on64 Copyable_function True True) 8)
     = Inl (Terminate, bound (on64 Copyable_function True True) 8)
   \<and> (\<exists>f. m_copy (null_vtable (on64 Copyable_function False True)) = Some f
          \<and> f (Member 20) (Member 10) (bound (on64 Copyable_function False True) 8)
              = Inr (bound (on64 Copyable_function False True) 8))"
  using empty_table_operations [where K = "on64 Copyable_function False True" and this = 20
      and s = "bound (on64 Copyable_function False True) 8" and args = 0
      and dst = "Member 20" and src = "Member 10"]
    empty_table_operations [where K = "on64 Copyable_function True True" and this = 20
      and s = "bound (on64 Copyable_function True True) 8" and args = 0]
    bound_holds(2) [OF binding_ok_on64(1), of False True 8]
    bound_holds(2) [OF binding_ok_on64(1), of True True 8]
  by (simp add: on64_simps copyable_def)

text \<open>
  Claim C6 as stated fails where assertions are enabled: invoking an empty
  \<^verbatim>\<open>move_only_function\<close> with a throwing signature ends in the failed assertion of
  \<^verbatim>\<open>operator()\<close>, not in \<^verbatim>\<open>std::bad_function_call\<close>.
\<close>

theorem empty_call_asserts:
  "call (on64 Move_only_function False False) 20 (0::int)
      (bound (on64 Move_only_function False False) 8)
     = Inl (Assertion_failed, bound (on64 Move_only_function False False) 8)"
  using bound_holds(2) [OF binding_ok_on64(2), of False False 8]
  by (simp add: call_def on64_simps)

section \<open>Copy assignment\<close>

lemma assign_copy_vtable:
  "assign_copy K this other s = Inr s' \<Longrightarrow> m_vtable s' = m_vtable s"
  by (auto simp: assign_copy_def and_then_def split: if_splits sum.splits
      dest!: vt_copy_vtable(1) vt_dtor_vtable(1))

lemma bound_inplace:
  assumes ok: "binding_ok (on64 k ne nd) (counter_lambda n)"
    and inl: "store_inplace (on64 k ne nd) (counter_lambda n)"
  shows "bound (on64 k ne nd) n =
     fresh\<lparr>m_vtable := (m_vtable fresh)(10 := Callable_vtable (counter_lambda n), 20 := Null_vtable),
           m_storage := (m_storage fresh)(Member 10 := Inplace True),
           world := 1\<rparr>"
  by (simp add: bound_eval [OF ok] emplace_storage(1) [OF inl])

lemma bound_heap:
  assumes ok: "binding_ok (on64 k ne nd) (counter_lambda n)"
    and inl: "\<not> store_inplace (on64 k ne nd) (counter_lambda n)"
  shows "bound (on64 k ne nd) n =
     fresh\<lparr>m_vtable := (m_vtable fresh)(10 := Callable_vtable (counter_lambda n), 20 := Null_vtable),
           m_storage := (m_storage fresh)(Member 10 := Allocated 100),
           heap := (heap fresh)(100 := Some True),
           brk := 101,
           world := 1\<rparr>"
  by (simp add: bound_eval [OF ok] emplace_storage(2) [OF inl] fresh_simps)

lemma store_inplace_on64:
  "store_inplace (on64 Copyable_function ne nd) (counter_lambda n) \<longleftrightarrow> n \<le> 16"
  "store_inplace (on64 Move_only_function ne nd) (counter_lambda n) \<longleftrightarrow> n \<le> 16"
  "store_inplace (on64 (Inplace_copyable_function c) ne nd) (counter_lambda n)"
  "store_inplace (on64 (Inplace_move_only_function c) ne nd) (counter_lambda n)"
  by (simp_all add: store_inplace_def capacity_def on64_simps counter_lambda_simps)

lemma copyable_on64:
  "copyable (on64 Copyable_function ne nd)"
  "\<not> copyable (on64 Move_only_function ne nd)"
  "copyable (on64 (Inplace_copyable_function c) ne nd)"
  "\<not> copyable (on64 (Inplace_move_only_function c) ne nd)"
  by (simp_all add: copyable_def on64_simps)

lemma emplace_holds:
  "holds K (emplace K C a y (s\<lparr>m_vtable := (m_vtable s)(a := Callable_vtable C), world := w\<rparr>))
     a C y"
  by (cases "store_inplace K C") (simp_all add: emplace_storage holds_def)

lemma emplace_world: "world (emplace K C a y s) = world s"
  by (cases "store_inplace K C") (simp_all add: emplace_storage)

lemma throwing_copy_simps:
  "size_of (throwing_copy n) = n"
  "nothrow_move_constructible (throwing_copy n)"
  "nothrow_invocable (throwing_copy n)"
  "copy_ctor (throwing_copy n) x w = None"
  "move_ctor (throwing_copy n) x w = (x, False, w)"
  "dtor_op (throwing_copy n) x w = (if x then w - 1 else w)"
  by (simp_all add: throwing_copy_def counter_lambda_def)

text \<open>
  Claim C1, at a failing input. The copy assignment runs \<^verbatim>\<open>m_dtor\<close> and \<^verbatim>\<open>m_copy\<close>
  through the table pointer of the destination and never writes that pointer. With an
  empty \<open>b\<close> at 20 and \<open>a\<close> at 10 bound to a callable, \<^verbatim>\<open>b = a\<close> returns with the
  state unchanged, in \<^verbatim>\<open>copyable_function\<close> and in \<^verbatim>\<open>inplace_copyable_function\<close>:
  \<open>b\<close> is still empty while \<open>a\<close> is not, and their table pointers differ.
\<close>

theorem copy_assignment_keeps_table:
  "assign_copy (on64 Copyable_function False True) 20 10
      (bound (on64 Copyable_function False True) 8)
     = Inr (bound (on64 Copyable_function False True) 8)
   \<and> assign_copy (on64 (Inplace_copyable_function 32) False True) 20 10
      (bound (on64 (Inplace_copyable_function 32) False True) 8)
     = Inr (bound (on64 (Inplace_copyable_function 32) False True) 8)
   \<and> operator_bool (bound (on64 Copyable_function False True) 8) 10
   \<and> \<not> operator_bool (bound (on64 Copyable_function False True) 8) 20
   \<and> m_vtable (bound (on64 Copyable_function False True) 8) 20
       \<noteq> m_vtable (bound (on64 Copyable_function False True) 8) 10"
proof -
  have a: "assign_copy K 20 10 s = Inr s" if "copyable K" "m_vtable s 20 = Null_vtable"
    for K and s :: "(bool, int, int, int) state"
    using that by (simp add: assign_copy_def and_then_def vt_dtor_simps vt_copy_simps)
  note ok1 = binding_ok_on64(1) [where ne = False and nd = True and n = 8]
  note ok3 = binding_ok_on64(3) [where ne = False and nd = True and n = 8 and c = 32]
  have b: "m_vtable (bound (on64 Copyable_function False True) 8) 10
      = Callable_vtable (counter_lambda 8)"
    using bound_holds(1) [OF ok1] by (simp add: holds_def)
  have ok3': "binding_ok (on64 (Inplace_copyable_function 32) False True) (counter_lambda 8)"
    by (rule ok3) simp
  show ?thesis
    using a [OF copyable_on64(1) bound_holds(2) [OF ok1]]
      a [OF copyable_on64(3) bound_holds(2) [OF ok3']]
      b bound_holds(2) [OF ok1]
    by (simp add: operator_bool_def)
qed

section \<open>The type-erased copy\<close>

text \<open>
  Claim C2, at a failing input. In \<^verbatim>\<open>copyable_function\<close> a payload of 24 bytes is
  stored on the heap: the storage of the container at 10 holds the pointer 100. The
  \<^verbatim>\<open>m_copy\<close> of its table reads the source's buffer as a \<^verbatim>\<open>Callable\<close>, where no
  \<^verbatim>\<open>Callable\<close> lives, rather than the object behind the pointer, so the copy
  constructor of the container has no defined result.
\<close>

theorem copy_of_heap_payload_reads_buffer:
  "ctor_copy (on64 Copyable_function False True) 30 10
      (bound (on64 Copyable_function False True) 24)
     = Inl (Undefined_behaviour,
         (bound (on64 Copyable_function False True) 24)
           \<lparr>m_vtable := (m_vtable (bound (on64 Copyable_function False True) 24))
              (30 := Callable_vtable (counter_lambda 24))\<rparr>)
   \<and> m_storage (bound (on64 Copyable_function False True) 24) (Member 10) = Allocated 100
   \<and> heap (bound (on64 Copyable_function False True) 24) 100 = Some True"
proof -
  let ?K = "on64 Copyable_function False True"
  have h: "\<not> store_inplace ?K (counter_lambda 24)"
    by (simp add: store_inplace_on64)
  note b = bound_heap [OF binding_ok_on64(1) h]
  show ?thesis
    by (simp add: b ctor_copy_def copyable_on64 Let_def vt_copy_simps callable_copy_def h
        fresh_simps)
qed


section \<open>Binding a function pointer\<close>

lemma argument_simps:
  "Callable invert_bool = Lvalue_reference Function" "addressof invert_bool = 4096"
  "Callable address_of_invert_bool = Pointer Function"
  "pointer_value address_of_invert_bool = 4096" "addressof address_of_invert_bool = 512"
  "Callable fp = Lvalue_reference (Pointer Function)"
  "pointer_value fp = 4096" "addressof fp = 768"
  "nothrow invert_bool = False" "nothrow address_of_invert_bool = False" "nothrow fp = False"
  by (simp_all add: invert_bool_def address_of_invert_bool_def fp_def)

text \<open>
  Claim C8, amended. When the deduced \<^verbatim>\<open>Callable\<close> is a pointer type, as for the
  prvalue \<^verbatim>\<open>&f\<close>, \<^verbatim>\<open>function_ptr\<close> stores the pointer's own value as its target,
  with the trampoline for \<^verbatim>\<open>Callable\<close>, and \<^verbatim>\<open>function_ref\<close> has no constructor for
  it. When the deduced \<^verbatim>\<open>Callable\<close> is not a pointer type, both wrappers store the
  address of what the argument refers to, with the trampoline for the pointer to it;
  a reference to a pointer, as deduced for a variable of function pointer type, is not
  a pointer type.
\<close>

theorem function_pointer_binding:
  "(is_pointer_v (Callable a) \<longrightarrow> (noexcept \<longrightarrow> nothrow a) \<longrightarrow>
      assign noexcept a x
        = Inr (x\<lparr>m_target := pointer_value a, m_invoke_target := Some (Callable a)\<rparr>)
      \<and> function_ref_callable noexcept a = Inl Ill_formed)
   \<and> (\<not> is_pointer_v (Callable a) \<longrightarrow> (noexcept \<longrightarrow> nothrow a) \<longrightarrow>
      assign noexcept a x
        = Inr (x\<lparr>m_target := addressof a,
                 m_invoke_target := Some (add_pointer_t (Callable a))\<rparr>)
      \<and> function_ref_callable noexcept a
        = Inr \<lparr>m_target = addressof a, m_invoke_target = Some (add_pointer_t (Callable a))\<rparr>)
   \<and> is_pointer_v (Pointer t)
   \<and> \<not> is_pointer_v (Lvalue_reference t)
   \<and> \<not> is_pointer_v Function
   \<and> \<not> is_pointer_v (Class_type n)"
  by (simp add: assign_def function_ref_callable_def is_pointer_v_def)

theorem function_pointer_binding_witness:
  "assign False address_of_invert_bool \<lparr>m_target = 0, m_invoke_target = None\<rparr>
     = Inr \<lparr>m_target = 4096, m_invoke_target = Some (Pointer Function)\<rparr>
   \<and> function_ref_callable False address_of_invert_bool = Inl Ill_formed
   \<and> assign False invert_bool \<lparr>m_target = 0, m_invoke_target = None\<rparr>
     = Inr \<lparr>m_target = 4096, m_invoke_target = Some (Pointer Function)\<rparr>
   \<and> function_ref_callable False invert_bool
     = Inr \<lparr>m_target = 4096, m_invoke_target = Some (Pointer Function)\<rparr>
   \<and> assign False fp \<lparr>m_target = 0, m_invoke_target = None\<rparr>
     = Inr \<lparr>m_target = 768, m_invoke_target = Some (Pointer (Pointer Function))\<rparr>"
  using function_pointer_binding [where a = address_of_invert_bool and noexcept = False
      and x = "\<lparr>m_target = 0, m_invoke_target = None\<rparr>" and t = Function]
    function_pointer_binding [where a = invert_bool and noexcept = False
      and x = "\<lparr>m_target = 0, m_invoke_target = None\<rparr>" and t = Function]
    function_pointer_binding [where a = fp and noexcept = False
      and x = "\<lparr>m_target = 0, m_invoke_target = None\<rparr>" and t = "Pointer Function"]
  by (simp add: argument_simps add_pointer_t_def)

text \<open>
  Claim C8 as stated fails for \<^verbatim>\<open>function_ref\<close>: bound to the variable \<^verbatim>\<open>fp\<close>, which
  holds the function pointer 4096, it stores 768, the address of the variable; and it
  cannot be bound to the prvalue \<^verbatim>\<open>&invert_bool\<close> at all.
\<close>

theorem function_ref_stores_address_of_pointer:
  "function_ref_callable False fp
     = Inr \<lparr>m_target = 768, m_invoke_target = Some (Pointer (Pointer Function))\<rparr>
   \<and> pointer_value fp = 4096
   \<and> function_ref_callable False address_of_invert_bool = Inl Ill_formed"
  by (simp add: function_ref_callable_def argument_simps is_pointer_v_def add_pointer_t_def)

section \<open>Moving a container\<close>

lemma holds_payload: "holds K s a C x \<Longrightarrow> payload_of K s a = Some (C, x)"
  by (auto simp: holds_def payload_of_def payload_at_def split: storage.splits if_splits)

lemma call_result_holds:
  "holds K s a C x \<Longrightarrow>
   call_result K a args s =
     (case invoke_op C x args (world s) of None \<Rightarrow> None | Some (r, x', w') \<Rightarrow> Some (r, w'))"
  by (cases "store_inplace K C")
    (auto simp: holds_inplace holds_heap call_result_def call_def deref_def callable_vtable_def
      callable_call_def split: option.splits)

lemma callable_move_inplace:
  assumes "store_inplace K C" "m_storage s src = Inplace x" "dst \<noteq> src"
  shows "callable_move K C dst src s =
     Inr (s\<lparr>m_storage := (m_storage s)(src := Raw, dst := Inplace (fst (relocate C x (world s)))),
            world := snd (relocate C x (world s))\<rparr>)"
  using assms
  by (auto simp: callable_move_def relocate_def Let_def fun_upd_twist split: prod.splits)

lemma callable_move_heap:
  assumes "\<not> store_inplace K C" "m_storage s src = Allocated p"
  shows "callable_move K C dst src s = Inr (s\<lparr>m_storage := (m_storage s)(dst := Allocated p)\<rparr>)"
  using assms by (simp add: callable_move_def)

lemma ctor_move_holds:
  assumes h: "holds K s c C x" and ne: "d \<noteq> c"
  shows "\<exists>s'. ctor_move K d c s = Inr s'
      \<and> m_vtable s' = (m_vtable s)(c := Null_vtable, d := Callable_vtable C)
      \<and> heap s' = heap s \<and> brk s' = brk s
      \<and> (\<forall>l. l \<noteq> Member c \<longrightarrow> l \<noteq> Member d \<longrightarrow> m_storage s' l = m_storage s l)
      \<and> (if store_inplace K C
          then holds K s' d C (fst (relocate C x (world s)))
            \<and> world s' = snd (relocate C x (world s))
          else holds K s' d C x \<and> world s' = world s)"
proof (cases "store_inplace K C")
  case True
  with h have v: "m_vtable s c = Callable_vtable C" and st: "m_storage s (Member c) = Inplace x"
    by (simp_all add: holds_inplace)
  show ?thesis
    using True v st ne
    by (simp add: ctor_move_def Let_def vt_move_simps callable_move_inplace holds_inplace)
next
  case False
  with h obtain p where v: "m_vtable s c = Callable_vtable C"
    and st: "m_storage s (Member c) = Allocated p" and hp: "heap s p = Some x"
    by (auto simp: holds_heap)
  show ?thesis
    using False v st hp ne
    by (simp add: ctor_move_def Let_def vt_move_simps callable_move_heap holds_heap)
qed


lemma assign_move_as_ctor_move:
  "d \<noteq> c \<Longrightarrow> destructor K d s = Inr s1 \<Longrightarrow> assign_move K d c s = ctor_move K d c s1"
  by (simp add: assign_move_def ctor_move_def destructor_def and_then_def)

lemma steady_holds:
  "holds K s a C x \<Longrightarrow> steady K s a \<longleftrightarrow> \<not> store_inplace K C \<or> relocatable C x (world s)"
  by (simp add: steady_def holds_payload)

lemma ctor_move_steady:
  assumes h: "holds K s c C x" and ne: "d \<noteq> c" and st: "steady K s c"
  shows "\<exists>s'. ctor_move K d c s = Inr s'
      \<and> m_vtable s' = (m_vtable s)(c := Null_vtable, d := Callable_vtable C)
      \<and> heap s' = heap s \<and> world s' = world s
      \<and> holds K s' d C x \<and> steady K s' d"
proof -
  from ctor_move_holds [OF h ne] obtain s' where m: "ctor_move K d c s = Inr s'"
    and v: "m_vtable s' = (m_vtable s)(c := Null_vtable, d := Callable_vtable C)"
    and hp: "heap s' = heap s"
    and r: "if store_inplace K C
          then holds K s' d C (fst (relocate C x (world s)))
            \<and> world s' = snd (relocate C x (world s))
          else holds K s' d C x \<and> world s' = world s"
    by blast
  from st h have "\<not> store_inplace K C \<or> relocate C x (world s) = (x, world s)"
    by (simp add: steady_holds relocatable_def)
  with r have hw: "holds K s' d C x" "world s' = world s"
    by (auto split: if_splits)
  moreover from hw st h have "steady K s' d"
    by (simp add: steady_holds)
  ultimately show ?thesis
    using m v hp by blast
qed

lemma move_through_steady:
  "holds K s c C x \<Longrightarrow> steady K s c \<Longrightarrow> distinct (c # ds) \<Longrightarrow>
   \<exists>s'. move_through K c ds s = Inr s'
      \<and> holds K s' (last (c # ds)) C x \<and> world s' = world s \<and> heap s' = heap s
      \<and> (\<forall>a\<in>set (butlast (c # ds)). m_vtable s' a = Null_vtable)
      \<and> (\<forall>a. a \<notin> set (c # ds) \<longrightarrow> m_vtable s' a = m_vtable s a)"
proof (induction ds arbitrary: c s)
  case Nil
  then show ?case by simp
next
  case (Cons d ds)
  from Cons.prems have ne: "d \<noteq> c" and dist: "distinct (d # ds)" and c: "c \<notin> set (d # ds)"
    by auto
  from ctor_move_steady [OF Cons.prems(1) ne Cons.prems(2)] obtain s1
    where m: "ctor_move K d c s = Inr s1"
      and v: "m_vtable s1 = (m_vtable s)(c := Null_vtable, d := Callable_vtable C)"
      and hw: "heap s1 = heap s" "world s1 = world s"
      and h1: "holds K s1 d C x" and st1: "steady K s1 d"
    by blast
  from Cons.IH [OF h1 st1 dist] obtain s' where r: "move_through K d ds s1 = Inr s'"
    and h': "holds K s' (last (d # ds)) C x" and w': "world s' = world s1" "heap s' = heap s1"
    and n': "\<forall>a\<in>set (butlast (d # ds)). m_vtable s' a = Null_vtable"
    and f': "\<forall>a. a \<notin> set (d # ds) \<longrightarrow> m_vtable s' a = m_vtable s1 a"
    by blast
  have "move_through K c (d # ds) s = Inr s'"
    by (simp add: m r and_then_def)
  moreover have "m_vtable s' c = Null_vtable"
    using f' c v ne by simp
  moreover have "\<forall>a. a \<notin> set (c # d # ds) \<longrightarrow> m_vtable s' a = m_vtable s a"
    using f' v by simp
  ultimately show ?case
    using h' w' hw n' by simp
qed


lemma call_result_same:
  "holds K s a C x \<Longrightarrow> holds K s' b C x \<Longrightarrow> world s' = world s \<Longrightarrow>
   call_result K b args s' = call_result K a args s"
  by (simp add: call_result_holds)

lemma ctor_move_summary:
  assumes h: "holds K s c C x" and ne: "d \<noteq> c"
  shows "\<exists>s'. ctor_move K d c s = Inr s'
      \<and> m_vtable s' c = Null_vtable \<and> eq_nullptr s' c \<and> \<not> operator_bool s' c
      \<and> m_vtable s' d = Callable_vtable C \<and> heap s' = heap s
      \<and> (if store_inplace K C
          then holds K s' d C (fst (relocate C x (world s)))
            \<and> world s' = snd (relocate C x (world s))
          else holds K s' d C x \<and> world s' = world s)
      \<and> (steady K s c \<longrightarrow>
            holds K s' d C x \<and> world s' = world s
            \<and> call_result K d args s' = call_result K c args s)"
proof -
  from ctor_move_holds [OF h ne] obtain s' where m: "ctor_move K d c s = Inr s'"
    and v: "m_vtable s' = (m_vtable s)(c := Null_vtable, d := Callable_vtable C)"
    and hp: "heap s' = heap s"
    and r: "if store_inplace K C
          then holds K s' d C (fst (relocate C x (world s)))
            \<and> world s' = snd (relocate C x (world s))
          else holds K s' d C x \<and> world s' = world s"
    by blast
  have "holds K s' d C x \<and> world s' = world s
      \<and> call_result K d args s' = call_result K c args s" if "steady K s c"
  proof -
    from ctor_move_steady [OF h ne that] m have "holds K s' d C x" "world s' = world s"
      by auto
    then show ?thesis
      using call_result_same [OF h] by simp
  qed
  then show ?thesis
    using m v hp r ne by (auto simp: eq_nullptr_def operator_bool_def)
qed

lemma bound_steady:
  assumes ok: "binding_ok (on64 k ne nd) (counter_lambda n)"
  shows "steady (on64 k ne nd) (bound (on64 k ne nd) n) 10"
  using bound_holds(1) [OF ok]
  by (simp add: steady_holds relocatable_def relocate_def counter_lambda_simps)

text \<open>
  Claim C3, amended to the owning containers. Let the container at \<open>c\<close> hold a
  payload and \<open>d\<close> be another address. Move construction of \<open>d\<close> from \<open>c\<close>
  returns; \<open>c\<close> is then at the empty table and tests null, \<open>d\<close> has the table of the
  payload's type, the heap is as before, and \<open>d\<close> holds the payload: the same heap
  object when it is heap-stored, the move-constructed object when it is in place, the
  world then being changed by that move and the destruction of the moved-from source
  and by nothing else. Move assignment does the same after destroying what \<open>d\<close> held.
  Where such a move is a relocation, \<open>d\<close> holds an equal payload in an unchanged world
  and answers every call as \<open>c\<close> did, and this stays so through any chain of moves,
  all earlier containers of the chain ending at the empty table.
\<close>

theorem owning_move_transfers:
  assumes "holds K s c C x" and "d \<noteq> c"
  shows "(\<exists>s'. ctor_move K d c s = Inr s'
      \<and> m_vtable s' c = Null_vtable \<and> eq_nullptr s' c \<and> \<not> operator_bool s' c
      \<and> m_vtable s' d = Callable_vtable C \<and> heap s' = heap s
      \<and> (if store_inplace K C
          then holds K s' d C (fst (relocate C x (world s)))
            \<and> world s' = snd (relocate C x (world s))
          else holds K s' d C x \<and> world s' = world s)
      \<and> (steady K s c \<longrightarrow>
            holds K s' d C x \<and> world s' = world s
            \<and> call_result K d args s' = call_result K c args s))
    \<and> (destructor K d s = Inr s1 \<longrightarrow> holds K s1 c C x \<longrightarrow>
        (\<exists>s'. assign_move K d c s = Inr s'
          \<and> m_vtable s' c = Null_vtable \<and> eq_nullptr s' c \<and> \<not> operator_bool s' c
          \<and> m_vtable s' d = Callable_vtable C \<and> heap s' = heap s1
          \<and> (if store_inplace K C
              then holds K s' d C (fst (relocate C x (world s1)))
                \<and> world s' = snd (relocate C x (world s1))
              else holds K s' d C x \<and> world s' = world s1)
          \<and> (steady K s1 c \<longrightarrow>
                holds K s' d C x \<and> world s' = world s1
                \<and> call_result K d args s' = call_result K c args s1)))
    \<and> (steady K s c \<longrightarrow> distinct (c # ds) \<longrightarrow>
        (\<exists>s'. move_through K c ds s = Inr s'
          \<and> holds K s' (last (c # ds)) C x \<and> world s' = world s \<and> heap s' = heap s
          \<and> call_result K (last (c # ds)) args s' = call_result K c args s
          \<and> (\<forall>a\<in>set (butlast (c # ds)). m_vtable s' a = Null_vtable)))"
proof (intro conjI impI)
  show "\<exists>s'. ctor_move K d c s = Inr s'
      \<and> m_vtable s' c = Null_vtable \<and> eq_nullptr s' c \<and> \<not> operator_bool s' c
      \<and> m_vtable s' d = Callable_vtable C \<and> heap s' = heap s
      \<and> (if store_inplace K C
          then holds K s' d C (fst (relocate C x (world s)))
            \<and> world s' = snd (relocate C x (world s))
          else holds K s' d C x \<and> world s' = world s)
      \<and> (steady K s c \<longrightarrow>
            holds K s' d C x \<and> world s' = world s
            \<and> call_result K d args s' = call_result K c args s)"
    by (rule ctor_move_summary [OF assms])
  show "\<exists>s'. assign_move K d c s = Inr s'
          \<and> m_vtable s' c = Null_vtable \<and> eq_nullptr s' c \<and> \<not> operator_bool s' c
          \<and> m_vtable s' d = Callable_vtable C \<and> heap s' = heap s1
          \<and> (if store_inplace K C
              then holds K s' d C (fst (relocate C x (world s1)))
                \<and> world s' = snd (relocate C x (world s1))
              else holds K s' d C x \<and> world s' = world s1)
          \<and> (steady K s1 c \<longrightarrow>
                holds K s' d C x \<and> world s' = world s1
                \<and> call_result K d args s' = call_result K c args s1)"
    if "destructor K d s = Inr s1" "holds K s1 c C x"
    using ctor_move_summary [OF that(2) assms(2)]
    by (simp add: assign_move_as_ctor_move [OF assms(2) that(1)])
  show "\<exists>s'. move_through K c ds s = Inr s'
          \<and> holds K s' (last (c # ds)) C x \<and> world s' = world s \<and> heap s' = heap s
          \<and> call_result K (last (c # ds)) args s' = call_result K c args s
          \<and> (\<forall>a\<in>set (butlast (c # ds)). m_vtable s' a = Null_vtable)"
    if "steady K s c" "distinct (c # ds)"
  proof -
    from move_through_steady [OF assms(1) that] obtain s'
      where r: "move_through K c ds s = Inr s'"
        "holds K s' (last (c # ds)) C x" "world s' = world s" "heap s' = heap s"
        "\<forall>a\<in>set (butlast (c # ds)). m_vtable s' a = Null_vtable"
      by blast
    from call_result_same [OF assms(1) r(2) r(3)] r show ?thesis
      by blast
  qed
qed


theorem owning_move_transfers_witness:
  "(\<exists>s'. ctor_move (on64 Move_only_function False False) 20 10
            (bound (on64 Move_only_function False False) 8) = Inr s'
       \<and> eq_nullptr s' 10
       \<and> holds (on64 Move_only_function False False) s' 20 (counter_lambda 8) True
       \<and> world s' = 1
       \<and> call_result (on64 Move_only_function False False) 20 5 s' = Some (6, 1))
   \<and> (\<exists>s'. assign_move (on64 Move_only_function False False) 20 10
            (bound (on64 Move_only_function False False) 8) = Inr s'
       \<and> eq_nullptr s' 10
       \<and> holds (on64 Move_only_function False False) s' 20 (counter_lambda 8) True
       \<and> world s' = 1)
   \<and> (\<exists>s'. move_through (on64 Move_only_function False False) 10 [30, 40, 50]
            (bound (on64 Move_only_function False False) 8) = Inr s'
       \<and> holds (on64 Move_only_function False False) s' 50 (counter_lambda 8) True
       \<and> world s' = 1
       \<and> m_vtable s' 10 = Null_vtable \<and> m_vtable s' 30 = Null_vtable
       \<and> m_vtable s' 40 = Null_vtable)"
proof -
  let ?K = "on64 Move_only_function False False"
  let ?s = "bound ?K 8"
  note ok = binding_ok_on64(2) [where ne = False and nd = False and n = 8]
  note h = bound_holds(1) [OF ok]
  note w = bound_holds(3) [OF ok]
  note st = bound_steady [OF ok]
  have d: "destructor ?K 20 ?s = Inr ?s"
    using bound_holds(2) [OF ok] by (simp add: destructor_def vt_dtor_simps)
  have ne: "(20::nat) \<noteq> 10"
    by simp
  have di: "distinct [10, 30, 40, 50::nat]"
    by simp
  have c: "call_result ?K 10 5 ?s = Some (6, 1)"
    using h w by (simp add: call_result_holds counter_lambda_simps)
  note T = owning_move_transfers [OF h ne, where ?s1.0 = ?s and ds = "[30, 40, 50]" and args = 5]
  from T st w c have 1: "\<exists>s'. ctor_move ?K 20 10 ?s = Inr s' \<and> eq_nullptr s' 10
       \<and> holds ?K s' 20 (counter_lambda 8) True \<and> world s' = 1
       \<and> call_result ?K 20 5 s' = Some (6, 1)"
    by auto
  from T st w d h have 2: "\<exists>s'. assign_move ?K 20 10 ?s = Inr s' \<and> eq_nullptr s' 10
       \<and> holds ?K s' 20 (counter_lambda 8) True \<and> world s' = 1"
    by auto
  from T st w di have 3: "\<exists>s'. move_through ?K 10 [30, 40, 50] ?s = Inr s'
       \<and> holds ?K s' 50 (counter_lambda 8) True \<and> world s' = 1
       \<and> m_vtable s' 10 = Null_vtable \<and> m_vtable s' 30 = Null_vtable
       \<and> m_vtable s' 40 = Null_vtable"
    by auto
  show ?thesis
    using 1 2 3 by blast
qed

text \<open>
  Claim C3 as stated fails for \<^verbatim>\<open>function_ptr\<close>, whose move constructor is
  defaulted: after the move the source still tests non-null.
\<close>

theorem function_ptr_move_leaves_source:
  "function_ptr_callable False invert_bool \<lparr>m_target = 0, m_invoke_target = None\<rparr>
     = Inr \<lparr>m_target = 4096, m_invoke_target = Some (Pointer Function)\<rparr>
   \<and> function_ptr_bool
        (snd (function_ptr_move \<lparr>m_target = 4096, m_invoke_target = Some (Pointer Function)\<rparr>))
   \<and> function_ptr_bool
        (fst (function_ptr_move \<lparr>m_target = 4096, m_invoke_target = Some (Pointer Function)\<rparr>))"
  by (simp add: function_ptr_callable_def assign_def argument_simps is_pointer_v_def
      add_pointer_t_def function_ptr_move_def function_ptr_bool_def)

section \<open>Swapping\<close>













lemma holds_well_formed: "holds K s a C x \<Longrightarrow> well_formed K s a"
  by (simp add: well_formed_def holds_payload holds_vtable)

lemma empty_well_formed:
  "m_vtable s a = Null_vtable \<Longrightarrow> well_formed K s a"
  "m_vtable s a = Null_vtable \<Longrightarrow> steady K s a"
  "m_vtable s a = Null_vtable \<Longrightarrow> payload_of K s a = None"
  by (simp_all add: well_formed_def steady_def payload_of_def payload_at_def)





section \<open>Inline or heap\<close>

text \<open>
  Claim C7. In \<^verbatim>\<open>copyable_function\<close> and \<^verbatim>\<open>move_only_function\<close> the capacity is two
  pointers, and a payload type is stored in place exactly when its size is within the
  capacity and its move constructor cannot throw. Binding a callable whose
  construction returns, by the converting constructor or the member
  \<^verbatim>\<open>operator=(Callable&&)\<close>, then returns with the constructed object in the buffer and
  the heap as it was; otherwise it returns with one new allocation that holds the
  constructed object and the pointer to it in the storage. The type-erased move of a
  heap-stored payload copies the pointer and changes nothing else.
\<close>

theorem heap_fallback_storage_rule:
  assumes "kind K = Copyable_function \<or> kind K = Move_only_function"
  shows "capacity K = 2 * sizeof_ptr K
    \<and> (store_inplace K C \<longleftrightarrow> size_of C \<le> capacity K \<and> nothrow_move_constructible C)
    \<and> (binding_ok K C \<longleftrightarrow> (NoExcept K \<longrightarrow> nothrow_invocable C))
    \<and> (binding_ok K C \<longrightarrow> construct_from C arg (world s) = Some (y, w) \<longrightarrow>
         ctor_callable K this C arg s =
           (if store_inplace K C
            then Inr (s\<lparr>m_vtable := (m_vtable s)(this := Callable_vtable C),
                        m_storage := (m_storage s)(Member this := Inplace y),
                        world := w\<rparr>)
            else Inr (s\<lparr>m_vtable := (m_vtable s)(this := Callable_vtable C),
                        m_storage := (m_storage s)(Member this := Allocated (brk s)),
                        heap := (heap s)(brk s := Some y),
                        brk := Suc (brk s),
                        world := w\<rparr>)))
    \<and> (binding_ok K C \<longrightarrow> destructor K this s = Inr s1 \<longrightarrow>
        construct_from C arg (world s1) = Some (y, w) \<longrightarrow>
         assign_callable K this C arg s =
           (if store_inplace K C
            then Inr (s1\<lparr>m_vtable := (m_vtable s1)(this := Callable_vtable C),
                         m_storage := (m_storage s1)(Member this := Inplace y),
                         world := w\<rparr>)
            else Inr (s1\<lparr>m_vtable := (m_vtable s1)(this := Callable_vtable C),
                         m_storage := (m_storage s1)(Member this := Allocated (brk s1)),
                         heap := (heap s1)(brk s1 := Some y),
                         brk := Suc (brk s1),
                         world := w\<rparr>)))
    \<and> (\<not> store_inplace K C \<longrightarrow> m_storage s src = Allocated p \<longrightarrow>
         m_move (callable_vtable K C) dst src s
           = Inr (s\<lparr>m_storage := (m_storage s)(dst := Allocated p)\<rparr>))"
proof (intro conjI impI)
  show "capacity K = 2 * sizeof_ptr K"
    using assms by (auto simp: capacity_def)
  show "store_inplace K C \<longleftrightarrow> size_of C \<le> capacity K \<and> nothrow_move_constructible C"
    using assms by (auto simp: store_inplace_def)
  show "binding_ok K C \<longleftrightarrow> (NoExcept K \<longrightarrow> nothrow_invocable C)"
    using assms by (auto simp: binding_ok_def fixed_capacity_def)
  show "ctor_callable K this C arg s =
           (if store_inplace K C
            then Inr (s\<lparr>m_vtable := (m_vtable s)(this := Callable_vtable C),
                        m_storage := (m_storage s)(Member this := Inplace y),
                        world := w\<rparr>)
            else Inr (s\<lparr>m_vtable := (m_vtable s)(this := Callable_vtable C),
                        m_storage := (m_storage s)(Member this := Allocated (brk s)),
                        heap := (heap s)(brk s := Some y),
                        brk := Suc (brk s),
                        world := w\<rparr>))"
    if "binding_ok K C" "construct_from C arg (world s) = Some (y, w)"
    using that by (simp add: ctor_callable_def emplace_storage)
  show "assign_callable K this C arg s =
           (if store_inplace K C
            then Inr (s1\<lparr>m_vtable := (m_vtable s1)(this := Callable_vtable C),
                         m_storage := (m_storage s1)(Member this := Inplace y),
                         world := w\<rparr>)
            else Inr (s1\<lparr>m_vtable := (m_vtable s1)(this := Callable_vtable C),
                         m_storage := (m_storage s1)(Member this := Allocated (brk s1)),
                         heap := (heap s1)(brk s1 := Some y),
                         brk := Suc (brk s1),
                         world := w\<rparr>))"
    if "binding_ok K C" "destructor K this s = Inr s1"
      "construct_from C arg (world s1) = Some (y, w)"
    using that
    by (simp add: assign_callable_def destructor_def and_then_def emplace_storage)
  show "m_move (callable_vtable K C) dst src s
           = Inr (s\<lparr>m_storage := (m_storage s)(dst := Allocated p)\<rparr>)"
    if "\<not> store_inplace K C" "m_storage s src = Allocated p"
    using that by (simp add: callable_vtable_def callable_move_def)
qed


theorem heap_fallback_storage_rule_witness:
  "store_inplace (on64 Move_only_function False True) (counter_lambda 16)
   \<and> \<not> store_inplace (on64 Move_only_function False True) (counter_lambda 17)
   \<and> capacity (on64 Move_only_function False True) = 16
   \<and> ctor_callable (on64 Move_only_function False True) 10 (counter_lambda 16) (Lvalue True) fresh
      = Inr (fresh\<lparr>m_vtable := (m_vtable fresh)(10 := Callable_vtable (counter_lambda 16)),
                   m_storage := (m_storage fresh)(Member 10 := Inplace True),
                   world := 1\<rparr>)
   \<and> ctor_callable (on64 Move_only_function False True) 10 (counter_lambda 17) (Lvalue True) fresh
      = Inr (fresh\<lparr>m_vtable := (m_vtable fresh)(10 := Callable_vtable (counter_lambda 17)),
                   m_storage := (m_storage fresh)(Member 10 := Allocated 100),
                   heap := (heap fresh)(100 := Some True),
                   brk := 101,
                   world := 1\<rparr>)
   \<and> assign_callable (on64 Move_only_function False True) 20 (counter_lambda 17) (Lvalue True)
        (bound (on64 Move_only_function False True) 8)
      = Inr ((bound (on64 Move_only_function False True) 8)
              \<lparr>m_vtable := (m_vtable (bound (on64 Move_only_function False True) 8))
                            (20 := Callable_vtable (counter_lambda 17)),
               m_storage := (m_storage (bound (on64 Move_only_function False True) 8))
                            (Member 20 := Allocated 100),
               heap := (heap (bound (on64 Move_only_function False True) 8))(100 := Some True),
               brk := 101,
               world := 2\<rparr>)
   \<and> m_move (callable_vtable (on64 Move_only_function False True) (counter_lambda 17))
        (Member 20) (Member 10) (fresh\<lparr>m_storage := (m_storage fresh)(Member 10 := Allocated 7)\<rparr>)
      = Inr (fresh\<lparr>m_storage := (m_storage fresh)(Member 10 := Allocated 7, Member 20 := Allocated 7)\<rparr>)"
proof -
  let ?K = "on64 Move_only_function False True"
  let ?s = "fresh\<lparr>m_storage := (m_storage fresh)(Member 10 := Allocated 7)\<rparr>"
  let ?b = "bound ?K 8"
  have k: "kind ?K = Copyable_function \<or> kind ?K = Move_only_function"
    by (simp add: on64_simps)
  note T = heap_fallback_storage_rule [OF k]
  note small = T [where C = "counter_lambda 16" and this = 10 and arg = "Lvalue True"
      and s = fresh and y = True and w = 1]
  note large = T [where C = "counter_lambda 17" and this = 10 and arg = "Lvalue True"
      and s = fresh and y = True and w = 1]
  note assigned = T [where C = "counter_lambda 17" and this = 20 and arg = "Lvalue True"
      and s = ?b and ?s1.0 = ?b and y = True and w = 2]
  note moved = T [where C = "counter_lambda 17" and s = ?s and src = "Member 10" and p = 7
      and dst = "Member 20"]
  note ok8 = binding_ok_on64(2) [where ne = False and nd = True and n = 8]
  have b: "brk ?b = 100" "world ?b = 1"
    by (simp_all add: bound_inplace [OF ok8] store_inplace_on64 fresh_simps)
  have d: "destructor ?K 20 ?b = Inr ?b"
    using bound_holds(2) [OF ok8] by (simp add: destructor_def vt_dtor_simps)
  have c: "construct_from (counter_lambda n) (Lvalue True) 0 = Some (True, 1)"
    "construct_from (counter_lambda n) (Lvalue True) 1 = Some (True, 2)" for n
    by (simp_all add: construct_counter_lambda)
  have 1: "store_inplace ?K (counter_lambda 16)"
    using small by (simp add: counter_lambda_simps on64_simps)
  have 2: "\<not> store_inplace ?K (counter_lambda 17)"
    using large by (simp add: counter_lambda_simps on64_simps)
  have 3: "capacity ?K = 16"
    using small by (simp add: on64_simps)
  have ok: "binding_ok ?K (counter_lambda 16)" "binding_ok ?K (counter_lambda 17)"
    using small large by (simp_all add: on64_simps)
  have 4: "ctor_callable ?K 10 (counter_lambda 16) (Lvalue True) fresh
      = Inr (fresh\<lparr>m_vtable := (m_vtable fresh)(10 := Callable_vtable (counter_lambda 16)),
                   m_storage := (m_storage fresh)(Member 10 := Inplace True),
                   world := 1\<rparr>)"
    using small ok 1 c by (simp add: fresh_simps)
  have 5: "ctor_callable ?K 10 (counter_lambda 17) (Lvalue True) fresh
      = Inr (fresh\<lparr>m_vtable := (m_vtable fresh)(10 := Callable_vtable (counter_lambda 17)),
                   m_storage := (m_storage fresh)(Member 10 := Allocated 100),
                   heap := (heap fresh)(100 := Some True),
                   brk := 101,
                   world := 1\<rparr>)"
    using large ok 2 c by (simp add: fresh_simps)
  have 6: "assign_callable ?K 20 (counter_lambda 17) (Lvalue True) ?b
      = Inr (?b\<lparr>m_vtable := (m_vtable ?b)(20 := Callable_vtable (counter_lambda 17)),
               m_storage := (m_storage ?b)(Member 20 := Allocated 100),
               heap := (heap ?b)(100 := Some True),
               brk := 101,
               world := 2\<rparr>)"
    using assigned ok 2 c d b by simp
  have 7: "m_move (callable_vtable ?K (counter_lambda 17)) (Member 20) (Member 10) ?s
      = Inr (fresh\<lparr>m_storage := (m_storage fresh)(Member 10 := Allocated 7, Member 20 := Allocated 7)\<rparr>)"
    using moved 2 by simp
  show ?thesis
    using 1 2 3 4 5 6 7 by blast
qed

section \<open>Assignment through a temporary\<close>

lemma assign_from_callable_through_temporary:
  "(\<forall>n. kind K \<noteq> Inplace_copyable_function n) \<Longrightarrow>
   assign_from_callable K this tmp C arg s =
     and_then (ctor_callable K tmp C arg s)
       (\<lambda>s1. and_then (assign_move K this tmp s1) (\<lambda>s2. destructor K tmp s2))"
  by (cases "kind K") (simp_all add: assign_from_callable_def)

lemma assign_from_callable_member:
  "kind K = Inplace_copyable_function n \<Longrightarrow>
   assign_from_callable K this tmp C arg s = assign_callable K this C arg s"
  by (simp add: assign_from_callable_def)

lemma well_formed_cases:
  "well_formed K s a \<Longrightarrow> m_vtable s a = Null_vtable \<or> (\<exists>D z. holds K s a D z)"
  by (cases "m_vtable s a")
    (auto simp: well_formed_def payload_of_def payload_at_def holds_def
      split: option.splits if_splits storage.splits)

text \<open>Destroying what a container holds leaves every other container as it is.\<close>

lemma destructor_holds:
  assumes h: "holds K s a D z" and o: "holds K s b C y" and ne: "a \<noteq> b"
    and sep: "\<forall>p. m_storage s (Member a) = Allocated p \<longrightarrow> m_storage s (Member b) \<noteq> Allocated p"
  shows "\<exists>s'. destructor K a s = Inr s' \<and> m_vtable s' = m_vtable s
      \<and> world s' = dtor_op D z (world s) \<and> holds K s' b C y"
proof (cases "store_inplace K D")
  case True
  with h have "m_vtable s a = Callable_vtable D" "m_storage s (Member a) = Inplace z"
    by (simp_all add: holds_inplace)
  with True o ne show ?thesis
    by (cases "store_inplace K C")
      (auto simp: destructor_def vt_dtor_simps callable_dtor_def holds_inplace holds_heap)
next
  case False
  with h obtain p where "m_vtable s a = Callable_vtable D"
    "m_storage s (Member a) = Allocated p" "heap s p = Some z"
    by (auto simp: holds_heap)
  with False o ne sep show ?thesis
    by (cases "store_inplace K C")
      (auto simp: destructor_def vt_dtor_simps callable_dtor_def holds_inplace holds_heap)
qed

text \<open>Binding a new container leaves every other container as it is.\<close>

lemma emplace_frame:
  assumes h: "holds K s a D z" and ne: "a \<noteq> b" and fr: "heap s (brk s) = None"
  shows "holds K (emplace K C b y (s\<lparr>m_vtable := (m_vtable s)(b := v), world := w\<rparr>)) a D z"
    and "\<forall>p. m_storage (emplace K C b y (s\<lparr>m_vtable := (m_vtable s)(b := v), world := w\<rparr>))
            (Member a) = Allocated p \<longrightarrow>
          m_storage (emplace K C b y (s\<lparr>m_vtable := (m_vtable s)(b := v), world := w\<rparr>))
            (Member b) \<noteq> Allocated p"
proof -
  have "holds K (emplace K C b y (s\<lparr>m_vtable := (m_vtable s)(b := v), world := w\<rparr>)) a D z
    \<and> (\<forall>p. m_storage (emplace K C b y (s\<lparr>m_vtable := (m_vtable s)(b := v), world := w\<rparr>))
            (Member a) = Allocated p \<longrightarrow>
          m_storage (emplace K C b y (s\<lparr>m_vtable := (m_vtable s)(b := v), world := w\<rparr>))
            (Member b) \<noteq> Allocated p)"
  proof (cases "store_inplace K D")
    case True
    with h ne show ?thesis
      by (cases "store_inplace K C") (auto simp: emplace_storage holds_inplace)
  next
    case False
    with h obtain p where "m_vtable s a = Callable_vtable D"
      "m_storage s (Member a) = Allocated p" "heap s p = Some z"
      by (auto simp: holds_heap)
    moreover from this fr have "p \<noteq> brk s"
      by auto
    ultimately show ?thesis
      using False ne
      by (cases "store_inplace K C") (auto simp: emplace_storage holds_heap)
  qed
  then show "holds K (emplace K C b y (s\<lparr>m_vtable := (m_vtable s)(b := v), world := w\<rparr>)) a D z"
    and "\<forall>p. m_storage (emplace K C b y (s\<lparr>m_vtable := (m_vtable s)(b := v), world := w\<rparr>))
            (Member a) = Allocated p \<longrightarrow>
          m_storage (emplace K C b y (s\<lparr>m_vtable := (m_vtable s)(b := v), world := w\<rparr>))
            (Member b) \<noteq> Allocated p"
    by blast+
qed


lemma destructor_empty:
  "m_vtable s a = Null_vtable \<Longrightarrow> destructor K a s = Inr s"
  by (simp add: destructor_def vt_dtor_simps)

lemma assign_through_temporary_ok:
  assumes pub: "\<forall>n. kind K \<noteq> Inplace_copyable_function n"
    and ok: "binding_ok K C" and ne: "this \<noteq> tmp"
    and wf: "well_formed K s this" and fr: "heap s (brk s) = None"
    and c: "construct_from C arg (world s) = Some (y, w)"
  shows "\<exists>s'. assign_from_callable K this tmp C arg s = Inr s'
      \<and> m_vtable s' this = Callable_vtable C \<and> m_vtable s' tmp = Null_vtable
      \<and> (if store_inplace K C
          then holds K s' this C
                 (fst (relocate C y
                   (case payload_of K s this of None \<Rightarrow> w | Some (D, z) \<Rightarrow> dtor_op D z w)))
            \<and> world s' =
                 snd (relocate C y
                   (case payload_of K s this of None \<Rightarrow> w | Some (D, z) \<Rightarrow> dtor_op D z w))
          else holds K s' this C y
            \<and> world s' =
                 (case payload_of K s this of None \<Rightarrow> w | Some (D, z) \<Rightarrow> dtor_op D z w))"
proof -
  define s1 where
    "s1 = emplace K C tmp y (s\<lparr>m_vtable := (m_vtable s)(tmp := Callable_vtable C), world := w\<rparr>)"
  define w1 where
    "w1 = (case payload_of K s this of None \<Rightarrow> w | Some (D, z) \<Rightarrow> dtor_op D z w)"
  have c1: "ctor_callable K tmp C arg s = Inr s1"
    using ctor_callable_ok [OF ok c] by (simp add: s1_def)
  have h1: "holds K s1 tmp C y"
    unfolding s1_def by (rule emplace_holds)
  have v1: "m_vtable s1 this = m_vtable s this" and wo1: "world s1 = w"
    using ne by (simp_all add: s1_def emplace_vtable emplace_world)
  have "\<exists>s2. destructor K this s1 = Inr s2 \<and> m_vtable s2 = m_vtable s1
      \<and> world s2 = w1 \<and> holds K s2 tmp C y"
  proof -
    from well_formed_cases [OF wf] show ?thesis
    proof
      assume e: "m_vtable s this = Null_vtable"
      then have "payload_of K s this = None"
        by (rule empty_well_formed(3))
      with e v1 wo1 h1 show ?thesis
        by (simp add: destructor_empty w1_def)
    next
      assume "\<exists>D z. holds K s this D z"
      then obtain D z where h: "holds K s this D z"
        by blast
      note f = emplace_frame [OF h ne fr, where C = C and y = y and v = "Callable_vtable C"
          and w = w, folded s1_def]
      from destructor_holds [OF f(1) h1 ne f(2)] wo1 holds_payload [OF h] show ?thesis
        by (simp add: w1_def)
    qed
  qed
  then obtain s2 where d2: "destructor K this s1 = Inr s2" and v2: "m_vtable s2 = m_vtable s1"
    and wo2: "world s2 = w1" and h2: "holds K s2 tmp C y"
    by blast
  from ctor_move_holds [OF h2 ne] obtain s3 where m3: "ctor_move K this tmp s2 = Inr s3"
    and v3: "m_vtable s3 = (m_vtable s2)(tmp := Null_vtable, this := Callable_vtable C)"
    and r3: "if store_inplace K C
          then holds K s3 this C (fst (relocate C y (world s2)))
            \<and> world s3 = snd (relocate C y (world s2))
          else holds K s3 this C y \<and> world s3 = world s2"
    by blast
  have a3: "assign_move K this tmp s1 = Inr s3"
    using assign_move_as_ctor_move [OF ne d2] m3 by simp
  have d3: "destructor K tmp s3 = Inr s3"
    using ne by (simp add: destructor_empty v3)
  have "assign_from_callable K this tmp C arg s = Inr s3"
    by (simp add: assign_from_callable_through_temporary [OF pub] c1 a3 d3 and_then_def)
  moreover have "m_vtable s3 this = Callable_vtable C" "m_vtable s3 tmp = Null_vtable"
    using ne by (simp_all add: v3)
  ultimately show ?thesis
    using r3 wo2 by (auto simp: w1_def)
qed

lemma assign_through_temporary_throws:
  assumes pub: "\<forall>n. kind K \<noteq> Inplace_copyable_function n"
    and ok: "binding_ok K C" and c: "construct_from C arg (world s) = None"
  shows "assign_from_callable K this tmp C arg s
      = Inl (Payload_exception, s\<lparr>m_vtable := (m_vtable s)(tmp := Callable_vtable C)\<rparr>)"
  using ok c
  by (simp add: assign_from_callable_through_temporary [OF pub] ctor_callable_def and_then_def)


section \<open>Order of table pointer and payload\<close>

text \<open>
  Claim C5, amended. The converting constructor writes the table pointer of the
  callable's type first and constructs the payload after it: when the payload's
  constructor throws, the constructor is left by that exception with the table pointer
  written and the storage untouched; when it returns, the container holds the new
  payload under the table of its type. The assignment \<^verbatim>\<open>x = callable\<close> of
  \<^verbatim>\<open>copyable_function\<close>, \<^verbatim>\<open>move_only_function\<close> and \<^verbatim>\<open>inplace_move_only_function\<close>
  goes through a temporary container: when the payload's constructor throws, the
  exception reaches the caller and nothing of \<open>x\<close> has changed; when it returns,
  \<open>x\<close>, empty or bound before, ends holding the new payload under the table of its
  type, its old payload destroyed once, and the temporary ends empty. In
  \<^verbatim>\<open>inplace_copyable_function\<close> the assignment is the member
  \<^verbatim>\<open>operator=(Callable&&)\<close>, which destroys the old payload, writes the table pointer
  and constructs the payload after it; being \<^verbatim>\<open>noexcept\<close>, it ends in
  \<^verbatim>\<open>std::terminate\<close> when the payload's constructor throws.
\<close>

theorem table_pointer_set_before_payload:
  assumes "binding_ok K C"
  shows "(construct_from C arg (world s) = None \<longrightarrow>
          ctor_callable K this C arg s
            = Inl (Payload_exception, s\<lparr>m_vtable := (m_vtable s)(this := Callable_vtable C)\<rparr>))
    \<and> (construct_from C arg (world s) = Some (y, w) \<longrightarrow>
          (\<exists>s'. ctor_callable K this C arg s = Inr s' \<and> holds K s' this C y \<and> world s' = w))
    \<and> ((\<forall>n. kind K \<noteq> Inplace_copyable_function n) \<longrightarrow>
        construct_from C arg (world s) = None \<longrightarrow>
          assign_from_callable K this tmp C arg s
            = Inl (Payload_exception, s\<lparr>m_vtable := (m_vtable s)(tmp := Callable_vtable C)\<rparr>))
    \<and> ((\<forall>n. kind K \<noteq> Inplace_copyable_function n) \<longrightarrow> this \<noteq> tmp \<longrightarrow>
        well_formed K s this \<longrightarrow> heap s (brk s) = None \<longrightarrow>
        construct_from C arg (world s) = Some (y, w) \<longrightarrow>
          (\<exists>s'. assign_from_callable K this tmp C arg s = Inr s'
            \<and> m_vtable s' this = Callable_vtable C \<and> m_vtable s' tmp = Null_vtable
            \<and> (if store_inplace K C
                then holds K s' this C
                       (fst (relocate C y
                         (case payload_of K s this of
                            None \<Rightarrow> w | Some (D, z) \<Rightarrow> dtor_op D z w)))
                  \<and> world s' =
                       snd (relocate C y
                         (case payload_of K s this of
                            None \<Rightarrow> w | Some (D, z) \<Rightarrow> dtor_op D z w))
                else holds K s' this C y
                  \<and> world s' =
                       (case payload_of K s this of
                          None \<Rightarrow> w | Some (D, z) \<Rightarrow> dtor_op D z w))))
    \<and> (kind K = Inplace_copyable_function n \<longrightarrow>
          assign_from_callable K this tmp C arg s = assign_callable K this C arg s)
    \<and> (destructor K this s = Inr s1 \<longrightarrow> construct_from C arg (world s1) = None \<longrightarrow>
          assign_callable K this C arg s
            = Inl (Terminate, s1\<lparr>m_vtable := (m_vtable s1)(this := Callable_vtable C)\<rparr>))
    \<and> (destructor K this s = Inr s1 \<longrightarrow> construct_from C arg (world s1) = Some (y, w) \<longrightarrow>
          (\<exists>s'. assign_callable K this C arg s = Inr s' \<and> holds K s' this C y \<and> world s' = w))"
proof (intro conjI impI)
  show "ctor_callable K this C arg s
      = Inl (Payload_exception, s\<lparr>m_vtable := (m_vtable s)(this := Callable_vtable C)\<rparr>)"
    if "construct_from C arg (world s) = None"
    using assms that by (simp add: ctor_callable_def)
  show "\<exists>s'. ctor_callable K this C arg s = Inr s' \<and> holds K s' this C y \<and> world s' = w"
    if "construct_from C arg (world s) = Some (y, w)"
    using assms that by (simp add: ctor_callable_def emplace_holds emplace_world)
  show "assign_from_callable K this tmp C arg s
      = Inl (Payload_exception, s\<lparr>m_vtable := (m_vtable s)(tmp := Callable_vtable C)\<rparr>)"
    if "\<forall>n. kind K \<noteq> Inplace_copyable_function n" "construct_from C arg (world s) = None"
    using that(1) assms that(2) by (rule assign_through_temporary_throws)
  show "\<exists>s'. assign_from_callable K this tmp C arg s = Inr s'
            \<and> m_vtable s' this = Callable_vtable C \<and> m_vtable s' tmp = Null_vtable
            \<and> (if store_inplace K C
                then holds K s' this C
                       (fst (relocate C y
                         (case payload_of K s this of
                            None \<Rightarrow> w | Some (D, z) \<Rightarrow> dtor_op D z w)))
                  \<and> world s' =
                       snd (relocate C y
                         (case payload_of K s this of
                            None \<Rightarrow> w | Some (D, z) \<Rightarrow> dtor_op D z w))
                else holds K s' this C y
                  \<and> world s' =
                       (case payload_of K s this of
                          None \<Rightarrow> w | Some (D, z) \<Rightarrow> dtor_op D z w))"
    if "\<forall>n. kind K \<noteq> Inplace_copyable_function n" "this \<noteq> tmp" "well_formed K s this"
      "heap s (brk s) = None" "construct_from C arg (world s) = Some (y, w)"
    using that(1) assms that(2-5) by (rule assign_through_temporary_ok)
  show "assign_from_callable K this tmp C arg s = assign_callable K this C arg s"
    if "kind K = Inplace_copyable_function n"
    using that by (rule assign_from_callable_member)
  show "assign_callable K this C arg s
      = Inl (Terminate, s1\<lparr>m_vtable := (m_vtable s1)(this := Callable_vtable C)\<rparr>)"
    if "destructor K this s = Inr s1" "construct_from C arg (world s1) = None"
    using assms that by (simp add: assign_callable_def destructor_def and_then_def)
  show "\<exists>s'. assign_callable K this C arg s = Inr s' \<and> holds K s' this C y \<and> world s' = w"
    if "destructor K this s = Inr s1" "construct_from C arg (world s1) = Some (y, w)"
    using assms that
    by (simp add: assign_callable_def destructor_def and_then_def emplace_holds emplace_world)
qed

theorem table_pointer_set_before_payload_witness:
  "ctor_callable (on64 Move_only_function False True) 30 (throwing_copy 8) (Lvalue True) fresh
     = Inl (Payload_exception,
         fresh\<lparr>m_vtable := (m_vtable fresh)(30 := Callable_vtable (throwing_copy 8))\<rparr>)
   \<and> (\<exists>s'. ctor_callable (on64 Move_only_function False True) 30 (throwing_copy 8) (Rvalue True)
              fresh = Inr s'
          \<and> holds (on64 Move_only_function False True) s' 30 (throwing_copy 8) True)
   \<and> assign_from_callable (on64 Move_only_function False True) 10 30 (throwing_copy 8)
        (Lvalue True) (bound (on64 Move_only_function False True) 8)
     = Inl (Payload_exception,
         (bound (on64 Move_only_function False True) 8)
           \<lparr>m_vtable := (m_vtable (bound (on64 Move_only_function False True) 8))
              (30 := Callable_vtable (throwing_copy 8))\<rparr>)
   \<and> (\<exists>s'. assign_from_callable (on64 Move_only_function False True) 10 30 (throwing_copy 8)
              (Rvalue True) (bound (on64 Move_only_function False True) 8) = Inr s'
          \<and> holds (on64 Move_only_function False True) s' 10 (throwing_copy 8) True
          \<and> m_vtable s' 30 = Null_vtable \<and> world s' = 0)
   \<and> assign_from_callable (on64 (Inplace_copyable_function 32) False True) 20 30
        (throwing_copy 8) (Lvalue True) (bound (on64 (Inplace_copyable_function 32) False True) 8)
     = Inl (Terminate,
         (bound (on64 (Inplace_copyable_function 32) False True) 8)
           \<lparr>m_vtable := (m_vtable (bound (on64 (Inplace_copyable_function 32) False True) 8))
              (20 := Callable_vtable (throwing_copy 8))\<rparr>)
   \<and> (\<exists>s'. assign_from_callable (on64 (Inplace_copyable_function 32) False True) 20 30
              (throwing_copy 8) (Rvalue True)
              (bound (on64 (Inplace_copyable_function 32) False True) 8) = Inr s'
          \<and> holds (on64 (Inplace_copyable_function 32) False True) s' 20 (throwing_copy 8) True)"
proof -
  let ?K = "on64 Move_only_function False True"
  let ?J = "on64 (Inplace_copyable_function 32) False True"
  let ?C = "throwing_copy 8"
  let ?s = "bound ?K 8" and ?t = "bound ?J 8"
  have ok: "binding_ok ?K ?C" "binding_ok ?J ?C"
    by (simp_all add: binding_ok_def fixed_capacity_def capacity_def on64_simps
        throwing_copy_simps)
  have pub: "\<forall>n. kind ?K \<noteq> Inplace_copyable_function n"
    and mem: "kind ?J = Inplace_copyable_function 32"
    by (simp_all add: on64_simps)
  have l: "construct_from ?C (Lvalue True) w = None" for w
    by (simp add: construct_from_def throwing_copy_simps)
  have r: "construct_from ?C (Rvalue True) w = Some (True, w)" for w
    by (simp add: construct_from_def throwing_copy_simps)
  note ok8 = binding_ok_on64(2) [where ne = False and nd = True and n = 8]
  have ok8': "binding_ok ?J (counter_lambda 8)"
    by (rule binding_ok_on64(3)) simp
  note h = bound_holds(1) [OF ok8]
  have wf: "well_formed ?K ?s 10"
    using h by (rule holds_well_formed)
  have inl: "store_inplace ?K (counter_lambda 8)" "store_inplace ?K ?C"
    by (simp_all add: store_inplace_def capacity_def on64_simps counter_lambda_simps
        throwing_copy_simps)
  have fr: "heap ?s (brk ?s) = None" and w: "world ?s = 1"
    by (simp_all add: bound_inplace [OF ok8 inl(1)] fresh_simps)
  have ne: "(10::nat) \<noteq> 30"
    by simp
  have d: "destructor ?J 20 ?t = Inr ?t"
    using bound_holds(2) [OF ok8'] by (rule destructor_empty)
  note P = table_pointer_set_before_payload
  note P1 = P [THEN conjunct1, rule_format]
  note P2 = P [THEN conjunct2, THEN conjunct1, rule_format]
  note P3 = P [THEN conjunct2, THEN conjunct2, THEN conjunct1, rule_format]
  note P4 = P [THEN conjunct2, THEN conjunct2, THEN conjunct2, THEN conjunct1, rule_format]
  note P5 = P [THEN conjunct2, THEN conjunct2, THEN conjunct2, THEN conjunct2, THEN conjunct1,
      rule_format]
  note P6 = P [THEN conjunct2, THEN conjunct2, THEN conjunct2, THEN conjunct2, THEN conjunct2,
      THEN conjunct1, rule_format]
  note P7 = P [THEN conjunct2, THEN conjunct2, THEN conjunct2, THEN conjunct2, THEN conjunct2,
      THEN conjunct2, rule_format]
  have 1: "ctor_callable ?K 30 ?C (Lvalue True) fresh
     = Inl (Payload_exception, fresh\<lparr>m_vtable := (m_vtable fresh)(30 := Callable_vtable ?C)\<rparr>)"
    by (rule P1 [OF ok(1) l])
  have 2: "\<exists>s'. ctor_callable ?K 30 ?C (Rvalue True) fresh = Inr s' \<and> holds ?K s' 30 ?C True"
    using P2 [OF ok(1) r, of 30 fresh] by blast
  have 3: "assign_from_callable ?K 10 30 ?C (Lvalue True) ?s
     = Inl (Payload_exception, ?s\<lparr>m_vtable := (m_vtable ?s)(30 := Callable_vtable ?C)\<rparr>)"
    using pub by (intro P3 [OF ok(1) _ l]) simp
  have p: "(case payload_of ?K ?s 10 of None \<Rightarrow> 1 | Some (D, z) \<Rightarrow> dtor_op D z 1) = 0"
    by (simp add: holds_payload [OF h] counter_lambda_simps)
  have q: "relocate ?C True 0 = (True, 0)"
    by (simp add: relocate_def throwing_copy_simps)
  have rw: "construct_from ?C (Rvalue True) (world ?s) = Some (True, 1)"
    by (simp add: r w)
  have 4: "\<exists>s'. assign_from_callable ?K 10 30 ?C (Rvalue True) ?s = Inr s'
      \<and> holds ?K s' 10 ?C True \<and> m_vtable s' 30 = Null_vtable \<and> world s' = 0"
    using P4 [OF ok(1) _ ne wf fr rw] pub inl(2) by (auto simp: p q)
  have 5: "assign_from_callable ?J 20 30 ?C (Lvalue True) ?t
     = Inl (Terminate, ?t\<lparr>m_vtable := (m_vtable ?t)(20 := Callable_vtable ?C)\<rparr>)"
    using P5 [OF ok(2) mem, of 20 30 "Lvalue True" ?t] P6 [OF ok(2) d l] by simp
  have 6: "\<exists>s'. assign_from_callable ?J 20 30 ?C (Rvalue True) ?t = Inr s'
      \<and> holds ?J s' 20 ?C True"
    using P5 [OF ok(2) mem, of 20 30 "Rvalue True" ?t] P7 [OF ok(2) d r] by auto
  show ?thesis
    using 1 2 3 4 5 6 by blast
qed

text \<open>
  Claim C5 as stated fails: constructing a container at 30 from a callable whose copy
  constructor throws ends with the table pointer already at the callable type's table,
  which it was not before, over a storage that holds no payload.
\<close>

theorem table_pointer_set_though_payload_failed:
  "ctor_callable (on64 Copyable_function False True) 30 (throwing_copy 8) (Lvalue True) fresh
     = Inl (Payload_exception,
         fresh\<lparr>m_vtable := (m_vtable fresh)(30 := Callable_vtable (throwing_copy 8))\<rparr>)
   \<and> m_storage fresh (Member 30) = Raw
   \<and> m_vtable fresh 30 \<noteq> Callable_vtable (throwing_copy 8)"
  by (simp add: ctor_callable_def binding_ok_def fixed_capacity_def on64_simps construct_from_def
      throwing_copy_simps fresh_simps)

end
